theory Spec2Isabelle
  imports Main "HOL-Library.Word"
begin

section \<open>The floating concat protocol (libavformat/floatconcat.c)\<close>

text \<open>
  A shallow embedding of \<^verbatim>\<open>src/libavformat/floatconcat.c\<close>. The C integers keep their
  widths: \<^verbatim>\<open>int64_t\<close> is a 64-bit word, \<^verbatim>\<open>int\<close> a 32-bit word, compared as signed values
  (\<open><s\<close>); arithmetic wraps around. A \<^verbatim>\<open>URLContext *\<close> is an address, \<open>NULL\<close> being 0.
  Every function that does I/O takes the state of the outside world and returns the new
  one together with its C return value and the updated \<^verbatim>\<open>struct flccat_data\<close>.
\<close>

subsection \<open>C types and constants\<close>

type_synonym int64 = "64 word"
type_synonym cint = "32 word"
type_synonym byte = "8 word"
type_synonym urlptr = nat

definition NULL :: urlptr where
  "NULL = 0"

definition FILENAME_FMT_MAX_LENGTH :: nat where
  "FILENAME_FMT_MAX_LENGTH = 1024"

text \<open>
  The values of \<^verbatim>\<open>errno.h\<close> and \<^verbatim>\<open>unistd.h\<close> on Linux; \<^verbatim>\<open>AVERROR(e)\<close> is \<^verbatim>\<open>-e\<close>. \<^verbatim>\<open>long\<close> has
  64 bits (LP64).
\<close>

definition ENOENT :: cint where "ENOENT = 2"
definition EBADF :: cint where "EBADF = 9"
definition EINVAL :: cint where "EINVAL = 22"
definition ENOSYS :: cint where "ENOSYS = 38"

definition AVERROR :: "cint \<Rightarrow> cint" where
  "AVERROR e = - e"

definition SEEK_SET :: cint where "SEEK_SET = 0"
definition SEEK_CUR :: cint where "SEEK_CUR = 1"
definition SEEK_END :: cint where "SEEK_END = 2"

definition LONG_MAX :: int where "LONG_MAX = 2 ^ 63 - 1"
definition LONG_MIN :: int where "LONG_MIN = - (2 ^ 63)"

subsection \<open>The C library functions the parser and the formatter call\<close>

definition isdigit :: "char \<Rightarrow> bool" where
  "isdigit c \<longleftrightarrow> 48 \<le> (of_char c :: nat) \<and> (of_char c :: nat) \<le> 57"

definition isspace :: "char \<Rightarrow> bool" where
  "isspace c \<longleftrightarrow> (of_char c :: nat) = 32 \<or> (9 \<le> (of_char c :: nat) \<and> (of_char c :: nat) \<le> 13)"

definition digit_val :: "char \<Rightarrow> nat" where
  "digit_val c = of_char c - 48"

definition digit_char :: "nat \<Rightarrow> char" where
  "digit_char n = ''0123456789'' ! n"

text \<open>The value of a string of decimal digits, most significant digit first.\<close>

fun dec_value_acc :: "nat \<Rightarrow> string \<Rightarrow> nat" where
  "dec_value_acc acc [] = acc"
| "dec_value_acc acc (c # cs) = dec_value_acc (acc * 10 + digit_val c) cs"

definition dec_value :: "string \<Rightarrow> nat" where
  "dec_value ds = dec_value_acc 0 ds"

text \<open>
  \<^verbatim>\<open>strtol(s, NULL, 10)\<close>: leading white space, an optional sign, then the longest run of
  digits; the value is clamped to the range of \<^verbatim>\<open>long\<close>. No digits give 0.
\<close>

definition strtol :: "string \<Rightarrow> int" where
  "strtol s =
     (let s1 = dropWhile isspace s;
          neg = (s1 \<noteq> [] \<and> hd s1 = CHR ''-'');
          s2 = (if s1 \<noteq> [] \<and> (hd s1 = CHR ''-'' \<or> hd s1 = CHR ''+'') then tl s1 else s1);
          v = int (dec_value (takeWhile isdigit s2));
          r = (if neg then - v else v)
      in max LONG_MIN (min LONG_MAX r))"

text \<open>The decimal digits \<^verbatim>\<open>%d\<close> prints.\<close>

function dec_nat :: "nat \<Rightarrow> string" where
  "dec_nat n = (if n < 10 then [digit_char n] else dec_nat (n div 10) @ [digit_char (n mod 10)])"
  by pat_completeness auto
termination
  by (relation "measure id") auto

declare dec_nat.simps [simp del]

definition dec_int :: "int \<Rightarrow> string" where
  "dec_int i = (if i < 0 then CHR ''-'' # dec_nat (nat (- i)) else dec_nat (nat i))"

text \<open>
  \<^verbatim>\<open>snprintf(buf, n, fmt, idx)\<close> with one \<^verbatim>\<open>int\<close> argument. Ordinary characters are copied,
  \<^verbatim>\<open>%%\<close> prints a percent sign and the first \<^verbatim>\<open>%d\<close> prints the argument. Any other
  conversion, and a second \<^verbatim>\<open>%d\<close>, has no defined behaviour with this argument list: the
  result is \<open>None\<close>. The output is cut to \<open>n - 1\<close> characters.
\<close>

fun format_d :: "string \<Rightarrow> cint \<Rightarrow> bool \<Rightarrow> string option" where
  "format_d [] i used = Some []"
| "format_d [c] i used = (if c = CHR ''%'' then None else Some [c])"
| "format_d (c # c' # cs) i used =
     (if c \<noteq> CHR ''%'' then map_option ((#) c) (format_d (c' # cs) i used)
      else if c' = CHR ''%'' then map_option ((#) CHR ''%'') (format_d cs i used)
      else if c' = CHR ''d'' \<and> \<not> used then map_option ((@) (dec_int (sint i))) (format_d cs i True)
      else None)"

definition snprintf :: "nat \<Rightarrow> string \<Rightarrow> cint \<Rightarrow> string option" where
  "snprintf n fmt i = map_option (take (n - 1)) (format_d fmt i False)"

text \<open>
  Modelled from the spec: the seed carries a scheme prefix (section 4.1), which
  \<^verbatim>\<open>av_strstart\<close> of libavutil removes; its code is not among the sources.
  \<^verbatim>\<open>av_strstart(str, pfx, &ptr)\<close> moves \<open>ptr\<close> past the prefix only when the whole prefix is
  there.
\<close>

definition av_strstart :: "string \<Rightarrow> string \<Rightarrow> string" where
  "av_strstart str pfx = (if take (length pfx) str = pfx then drop (length pfx) str else str)"

definition strnlen :: "string \<Rightarrow> nat \<Rightarrow> nat" where
  "strnlen s maxlen = min (length s) maxlen"

text \<open>
  Modelled from the spec: the template is the prefix, the placeholder and the suffix
  (section 4.1), which \<^verbatim>\<open>av_strlcpy\<close> of libavutil copies; its code is not among the
  sources. \<^verbatim>\<open>av_strlcpy(dst, src, size)\<close> copies at most \<open>size - 1\<close> characters.
\<close>

definition av_strlcpy :: "string \<Rightarrow> nat \<Rightarrow> string" where
  "av_strlcpy src sz = take (sz - 1) src"

subsection \<open>The segment accessor: the single-resource I/O the protocol is built on\<close>

text \<open>
  \<^verbatim>\<open>ffurl_open\<close>, \<^verbatim>\<open>ffurl_read\<close>, \<^verbatim>\<open>ffurl_seek\<close>, \<^verbatim>\<open>ffurl_size\<close>, \<^verbatim>\<open>ffurl_close\<close> and
  \<^verbatim>\<open>access\<close> are not part of floatconcat.c. They are parameters of the model: functions on
  a state of the outside world \<open>'w\<close> (the file system, the table of open handles), each
  returning what the C function returns. \<^verbatim>\<open>ffurl_open\<close> also returns the pointer it stores
  through its first argument, \<^verbatim>\<open>ffurl_read\<close> the bytes it put into the buffer, and
  \<open>uc_flags\<close> is the read of \<^verbatim>\<open>uc->flags\<close>. Nothing is assumed about them here, so a
  theorem about the protocol holds for every behaviour of the files, failures and
  concurrent deletions included.
\<close>

record 'w accessor =
  ffurl_open :: "string \<Rightarrow> cint \<Rightarrow> 'w \<Rightarrow> (cint \<times> urlptr) \<times> 'w"
  ffurl_read :: "urlptr \<Rightarrow> cint \<Rightarrow> 'w \<Rightarrow> (cint \<times> byte list) \<times> 'w"
  ffurl_seek :: "urlptr \<Rightarrow> int64 \<Rightarrow> cint \<Rightarrow> 'w \<Rightarrow> int64 \<times> 'w"
  ffurl_size :: "urlptr \<Rightarrow> 'w \<Rightarrow> int64 \<times> 'w"
  ffurl_close :: "urlptr \<Rightarrow> 'w \<Rightarrow> cint \<times> 'w"
  access_R_OK :: "string \<Rightarrow> 'w \<Rightarrow> cint"
  uc_flags :: "urlptr \<Rightarrow> 'w \<Rightarrow> cint"

subsection \<open>The protocol's data\<close>

record flccat_nodes =
  uc :: urlptr
  node_size :: int64

record flccat_data =
  current :: flccat_nodes
  idx :: cint
  filename_fmt :: string
  segment_start :: int64

subsection \<open>Opening and closing one segment\<close>

definition filename_from_idx :: "string \<Rightarrow> cint \<Rightarrow> string option" where
  "filename_from_idx fmt i = snprintf FILENAME_FMT_MAX_LENGTH fmt i"

definition file_exist_filename :: "'w accessor \<Rightarrow> string \<Rightarrow> 'w \<Rightarrow> bool" where
  "file_exist_filename A filename w \<longleftrightarrow> access_R_OK A filename w = 0"

definition update_current_size ::
  "'w accessor \<Rightarrow> flccat_nodes \<Rightarrow> 'w \<Rightarrow> int64 \<times> flccat_nodes \<times> 'w" where
  "update_current_size A cur w =
     (let (result, w1) = ffurl_size A (uc cur) w
      in if result <s 0 then (result, cur, w1)
         else (result, cur\<lparr>node_size := result\<rparr>, w1))"

definition open_filename ::
  "'w accessor \<Rightarrow> string \<Rightarrow> cint \<Rightarrow> flccat_data \<Rightarrow> 'w \<Rightarrow> cint \<times> flccat_data \<times> 'w" where
  "open_filename A filename flags d w =
     (let ((err, p), w1) = ffurl_open A filename flags w;
          d1 = d\<lparr>current := (current d)\<lparr>uc := p\<rparr>\<rparr>
      in if err <s 0 then (err, d1, w1)
         else (let (r, cur, w2) = update_current_size A (current d1) w1;
                   d2 = d1\<lparr>current := cur\<rparr>
               in if r <s 0
                  then (let (c, w3) = ffurl_close A (uc (current d2)) w2
                        in (AVERROR ENOSYS, d2, w3))
                  else (0, d2, w2)))"

text \<open>
  Where the template has no defined file name for the index (see \<open>snprintf\<close>), the
  functions that format it have no result: \<open>None\<close>.
\<close>

definition open_idx ::
  "'w accessor \<Rightarrow> cint \<Rightarrow> flccat_data \<Rightarrow> 'w \<Rightarrow> (cint \<times> flccat_data \<times> 'w) option" where
  "open_idx A flags d w =
     (case filename_from_idx (filename_fmt d) (idx d) of
        None \<Rightarrow> None
      | Some filename \<Rightarrow> Some (open_filename A filename flags d w))"

definition close_current :: "'w accessor \<Rightarrow> flccat_data \<Rightarrow> 'w \<Rightarrow> cint \<times> 'w" where
  "close_current A d w = ffurl_close A (uc (current d)) w"

definition flccat_close :: "'w accessor \<Rightarrow> flccat_data \<Rightarrow> 'w \<Rightarrow> cint \<times> 'w" where
  "flccat_close A d w =
     (let (err, w1) = ffurl_close A (uc (current d)) w
      in (if err <s 0 then - 1 else 0, w1))"

subsection \<open>The pattern parser and \<^verbatim>\<open>flccat_open\<close>\<close>

text \<open>
  The two scanning loops of \<^verbatim>\<open>flccat_open\<close>, on the index of \<^verbatim>\<open>c_iter\<close> in \<^verbatim>\<open>uri\<close>. Both
  stop at index 0 whatever character is there (\<^verbatim>\<open>c_iter > uri\<close>).
\<close>

fun skip_nondigits :: "string \<Rightarrow> nat \<Rightarrow> nat" where
  "skip_nondigits uri 0 = 0"
| "skip_nondigits uri (Suc c) =
     (if \<not> isdigit (uri ! Suc c) then skip_nondigits uri c else Suc c)"

fun skip_digits :: "string \<Rightarrow> nat \<Rightarrow> nat" where
  "skip_digits uri 0 = 0"
| "skip_digits uri (Suc c) =
     (if isdigit (uri ! Suc c) then skip_digits uri c else Suc c)"

text \<open>
  Lines 118 to 148: the template and the starting index, or the error returned. The
  three \<^verbatim>\<open>av_strlcpy\<close> calls write the prefix, \<^verbatim>\<open>%d\<close> and the suffix one after the other
  into \<^verbatim>\<open>filename_fmt\<close>. \<^verbatim>\<open>data->idx\<close> is assigned before the test, so it is set on the
  error path too.
\<close>

definition parse_uri :: "string \<Rightarrow> flccat_data \<Rightarrow> cint \<times> flccat_data" where
  "parse_uri uri0 d =
     (let uri = av_strstart uri0 ''flccat:''
      in if uri = [] then (AVERROR ENOENT, d)
         else (let uri_len = strnlen uri (FILENAME_FMT_MAX_LENGTH - 1);
                   c1 = skip_nondigits uri (uri_len - 1);
                   num_end = c1 + 1;
                   c2 = skip_digits uri c1;
                   num_begin = c2 + 1;
                   d1 = d\<lparr>idx := word_of_int (strtol (drop (c2 + 1) uri))\<rparr>
               in if num_begin \<noteq> num_end
                  then (0, d1\<lparr>filename_fmt :=
                              av_strlcpy uri (num_begin + 1) @
                              av_strlcpy ''%d'' (2 + 1) @
                              av_strlcpy (drop num_end uri) (uri_len - num_end + 1)\<rparr>)
                  else (AVERROR ENOENT, d1)))"

definition flccat_open ::
  "'w accessor \<Rightarrow> string \<Rightarrow> cint \<Rightarrow> flccat_data \<Rightarrow> 'w \<Rightarrow> (cint \<times> flccat_data \<times> 'w) option" where
  "flccat_open A uri flags d w =
     (let d0 = d\<lparr>current := \<lparr>uc = NULL, node_size = 0\<rparr>, idx := 0,
                  filename_fmt := [], segment_start := 0\<rparr>;
          (perr, d1) = parse_uri uri d0
      in if perr <s 0 then Some (perr, d1, w)
         else (case open_idx A flags d1 w of
                 None \<Rightarrow> None
               | Some (err, d2, w2) \<Rightarrow>
                   if err <s 0
                   then (let (c, w3) = flccat_close A d2 w2 in Some (err, d2, w3))
                   else Some (err, d2, w2)))"

subsection \<open>The navigator\<close>

text \<open>
  \<^verbatim>\<open>progress\<close>. A failed \<^verbatim>\<open>assert\<close> aborts: no result. The flags handed to
  \<^verbatim>\<open>open_filename\<close> are read from \<^verbatim>\<open>data->current.uc\<close> after \<^verbatim>\<open>close_current\<close> (line 190):
  with \<^verbatim>\<open>data->current.uc\<close> equal to \<open>NULL\<close>, as a failed \<^verbatim>\<open>ffurl_open\<close> leaves it, this reads
  through a null pointer and the call has no result. For any other pointer the read is
  \<open>uc_flags\<close> of the accessor.
\<close>

definition progress ::
  "'w accessor \<Rightarrow> cint \<Rightarrow> flccat_data \<Rightarrow> 'w \<Rightarrow> (int64 \<times> flccat_data \<times> 'w) option" where
  "progress A direction d w =
     (if \<not> (direction = 1 \<or> direction = - 1) then None
      else case filename_from_idx (filename_fmt d) (idx d + direction) of
        None \<Rightarrow> None
      | Some filename \<Rightarrow>
          if file_exist_filename A filename w
          then (let (size_first, w1) = ffurl_size A (uc (current d)) w;
                    (e1, w2) = close_current A d w1
                in if (scast e1 :: int64) <s 0 then Some (scast e1, d, w2)
                   else if uc (current d) = NULL then None
                   else (let (e2, d2, w3) =
                               open_filename A filename (uc_flags A (uc (current d)) w2) d w2
                         in if (scast e2 :: int64) <s 0 then Some (scast e2, d2, w3)
                            else (let d3 = d2\<lparr>idx := idx d2 + direction\<rparr>;
                                      d4 = (if 0 <s direction
                                            then d3\<lparr>segment_start := segment_start d3 + size_first\<rparr>
                                            else d3\<lparr>segment_start :=
                                                      segment_start d3 - node_size (current d3)\<rparr>);
                                      (e3, w4) = ffurl_seek A (uc (current d4)) 0 SEEK_SET w3
                                  in if e3 <s 0 then Some (e3, d4, w4)
                                     else Some (1, d4, w4))))
          else Some (0, d, w))"

definition go_forward ::
  "'w accessor \<Rightarrow> flccat_data \<Rightarrow> 'w \<Rightarrow> (int64 \<times> flccat_data \<times> 'w) option" where
  "go_forward A d w = progress A 1 d w"

definition go_backward ::
  "'w accessor \<Rightarrow> flccat_data \<Rightarrow> 'w \<Rightarrow> (int64 \<times> flccat_data \<times> 'w) option" where
  "go_backward A d w = progress A (- 1) d w"

definition activate_current :: "'w accessor \<Rightarrow> flccat_data \<Rightarrow> 'w \<Rightarrow> int64 \<times> 'w" where
  "activate_current A d w = ffurl_seek A (uc (current d)) 0 SEEK_SET w"

subsection \<open>The stream reader\<close>

text \<open>
  The loop of \<^verbatim>\<open>flccat_read\<close>. \<open>sz\<close> and \<open>tot\<close> are \<^verbatim>\<open>size\<close> and \<^verbatim>\<open>total\<close>; \<open>buf\<close> holds
  the bytes written so far to the caller's buffer, in order. The loop may run forever, so
  it is a partial function: \<open>None\<close> is a call that does not return. The block under
  \<^verbatim>\<open>#if 0\<close> is not compiled and not modelled. \<^verbatim>\<open>err\<close> is an \<^verbatim>\<open>int\<close>: the 64-bit results of
  \<^verbatim>\<open>go_forward\<close> and \<^verbatim>\<open>activate_current\<close> are cut to 32 bits.
\<close>

partial_function (option) flccat_read_loop ::
  "'w accessor \<Rightarrow> cint \<Rightarrow> cint \<Rightarrow> byte list \<Rightarrow> flccat_data \<Rightarrow> 'w \<Rightarrow>
     (cint \<times> byte list \<times> flccat_data \<times> 'w) option" where
  "flccat_read_loop A sz tot buf d w =
     (if 0 <s sz
      then (let ((result, bytes), w1) = ffurl_read A (uc (current d)) sz w
            in if result <s 0 then Some (if tot \<noteq> 0 then tot else result, buf, d, w1)
               else (let buf1 = buf @ take (unat result) bytes
                     in if result = 0 \<or> result <s sz
                        then (case go_forward A d w1 of
                                None \<Rightarrow> None
                              | Some (p, d2, w2) \<Rightarrow>
                                  if (ucast p :: cint) <s 0 then Some (ucast p, buf1, d2, w2)
                                  else (let (a, w3) = activate_current A d2 w2
                                        in if (ucast a :: cint) <s 0
                                           then Some (ucast a, buf1, d2, w3)
                                           else flccat_read_loop A (sz - result) (tot + result)
                                                  buf1 d2 w3))
                        else flccat_read_loop A (sz - result) (tot + result) buf1 d w1))
      else Some (tot, buf, d, w))"

definition flccat_read ::
  "'w accessor \<Rightarrow> cint \<Rightarrow> flccat_data \<Rightarrow> 'w \<Rightarrow> (cint \<times> byte list \<times> flccat_data \<times> 'w) option" where
  "flccat_read A sz d w = flccat_read_loop A sz 0 [] d w"

subsection \<open>The seek translator\<close>

text \<open>
  The two loops of \<^verbatim>\<open>seek_relative\<close>. Each either leaves the function with a return value
  (\<open>Inl\<close>) or ends with the current \<^verbatim>\<open>pos\<close> (\<open>Inr\<close>). In the forward loop \<^verbatim>\<open>size\<close> is
  declared \<^verbatim>\<open>int\<close>: the 64-bit \<^verbatim>\<open>data->current.size\<close> is cut to 32 bits and sign-extended
  again in \<^verbatim>\<open>pos -= size\<close>.
\<close>

partial_function (option) seek_relative_backward ::
  "'w accessor \<Rightarrow> int64 \<Rightarrow> int64 \<Rightarrow> flccat_data \<Rightarrow> 'w \<Rightarrow>
     ((int64 + int64) \<times> flccat_data \<times> 'w) option" where
  "seek_relative_backward A offset pos d w =
     (if offset + pos <s 0
      then (case go_backward A d w of
              None \<Rightarrow> None
            | Some (prog, d1, w1) \<Rightarrow>
                if prog = 0
                then (let (offset1, w2) = ffurl_seek A (uc (current d1)) 0 SEEK_SET w1
                      in if offset1 <s 0 then Some (Inl offset1, d1, w2)
                         else Some (Inl (segment_start d1 + offset1), d1, w2))
                else if prog = 1
                then seek_relative_backward A offset (pos + node_size (current d1)) d1 w1
                else Some (Inl prog, d1, w1))
      else Some (Inr pos, d, w))"

partial_function (option) seek_relative_forward ::
  "'w accessor \<Rightarrow> int64 \<Rightarrow> int64 \<Rightarrow> flccat_data \<Rightarrow> 'w \<Rightarrow>
     ((int64 + int64) \<times> flccat_data \<times> 'w) option" where
  "seek_relative_forward A offset pos d w =
     (if node_size (current d) <s offset + pos
      then (let sz = (ucast (node_size (current d)) :: cint)
            in case go_forward A d w of
                 None \<Rightarrow> None
               | Some (prog, d1, w1) \<Rightarrow>
                   if prog = 0
                   then (let (r, cur, w2) = update_current_size A (current d1) w1;
                             d2 = d1\<lparr>current := cur\<rparr>;
                             (offset1, w3) = ffurl_seek A (uc (current d2)) (- 1) SEEK_END w2
                         in if offset1 <s 0 then Some (Inl offset1, d2, w3)
                            else Some (Inl (segment_start d2 + offset1), d2, w3))
                   else if prog = 1
                   then seek_relative_forward A offset (pos - scast sz) d1 w1
                   else Some (Inl prog, d1, w1))
      else Some (Inr pos, d, w))"

definition seek_relative ::
  "'w accessor \<Rightarrow> int64 \<Rightarrow> flccat_data \<Rightarrow> 'w \<Rightarrow> (int64 \<times> flccat_data \<times> 'w) option" where
  "seek_relative A pos d w =
     (let (offset, w0) = ffurl_seek A (uc (current d)) 0 SEEK_CUR w
      in case seek_relative_backward A offset pos d w0 of
           None \<Rightarrow> None
         | Some (Inl v, d1, w1) \<Rightarrow> Some (v, d1, w1)
         | Some (Inr pos1, d1, w1) \<Rightarrow>
             (case seek_relative_forward A offset pos1 d1 w1 of
                None \<Rightarrow> None
              | Some (Inl v, d2, w2) \<Rightarrow> Some (v, d2, w2)
              | Some (Inr pos2, d2, w2) \<Rightarrow>
                  (let (offset1, w3) = ffurl_seek A (uc (current d2)) (offset + pos2) SEEK_SET w2
                   in if offset1 <s 0 then Some (offset1, d2, w3)
                      else Some (segment_start d2 + offset1, d2, w3))))"

text \<open>The \<^verbatim>\<open>do ... while (progress > 0)\<close> loop of the \<^verbatim>\<open>SEEK_END\<close> case.\<close>

partial_function (option) go_forward_loop ::
  "'w accessor \<Rightarrow> flccat_data \<Rightarrow> 'w \<Rightarrow> (int64 \<times> flccat_data \<times> 'w) option" where
  "go_forward_loop A d w =
     (case go_forward A d w of
        None \<Rightarrow> None
      | Some (prog, d1, w1) \<Rightarrow>
          if 0 <s prog then go_forward_loop A d1 w1 else Some (prog, d1, w1))"

definition flccat_seek ::
  "'w accessor \<Rightarrow> int64 \<Rightarrow> cint \<Rightarrow> flccat_data \<Rightarrow> 'w \<Rightarrow> (int64 \<times> flccat_data \<times> 'w) option" where
  "flccat_seek A pos whence d w =
     (if whence = SEEK_END
      then (case go_forward_loop A d w of
              None \<Rightarrow> None
            | Some (prog, d1, w1) \<Rightarrow>
                if prog <s 0 then Some (prog, d1, w1)
                else (let (a, w2) = activate_current A d1 w1
                      in if a <s 0 then Some (a, d1, w2)
                         else seek_relative A (node_size (current d1) + pos) d1 w2))
      else if whence = SEEK_CUR then seek_relative A pos d w
      else if whence = SEEK_SET
      then (let (offset, w1) = ffurl_seek A (uc (current d)) 0 SEEK_CUR w;
                current_pos = segment_start d + offset
            in seek_relative A (pos - current_pos) d w1)
      else Some (scast (AVERROR EINVAL), d, w))"

subsection \<open>A simulated segment accessor\<close>

text \<open>
  Modelled from the spec: the Segment Accessor (section 4.2: open, read, seek, size,
  close, probeReadable), whose code (\<^verbatim>\<open>ffurl_*\<close> in avio.c, \<^verbatim>\<open>access\<close> in the C library) is
  not part of floatconcat.c. It is one instance of the accessor parameter, used to run
  the protocol on concrete files. A directory entry is a regular file with its bytes, a
  file of \<open>n\<close> zero bytes, a file that is still listed but can no longer be opened
  (deleted between the probe and the open), or a file that opens but has no known size.
  A read at the end of a file returns 0; closing \<open>NULL\<close> returns 0 and does nothing.
\<close>

datatype sim_entry = File "byte list" | Zeros int | Vanished | Unsized

record sim_world =
  fs :: "(string \<times> sim_entry) list"
  handles :: "(urlptr \<times> string \<times> int) list"
  next_ptr :: urlptr

definition sim_length :: "sim_world \<Rightarrow> string \<Rightarrow> int option" where
  "sim_length w fn =
     (case map_of (fs w) fn of
        Some (File bs) \<Rightarrow> Some (int (length bs))
      | Some (Zeros n) \<Rightarrow> Some (max 0 n)
      | _ \<Rightarrow> None)"

definition sim_bytes :: "sim_world \<Rightarrow> string \<Rightarrow> int \<Rightarrow> int \<Rightarrow> byte list" where
  "sim_bytes w fn pos k =
     (case map_of (fs w) fn of
        Some (File bs) \<Rightarrow> take (nat k) (drop (nat pos) bs)
      | Some (Zeros n) \<Rightarrow> replicate (nat k) 0
      | _ \<Rightarrow> [])"

definition set_pos :: "urlptr \<Rightarrow> int \<Rightarrow> (urlptr \<times> string \<times> int) list \<Rightarrow> (urlptr \<times> string \<times> int) list" where
  "set_pos p n hs = map (\<lambda>(q, fn, pos). if q = p then (q, fn, n) else (q, fn, pos)) hs"

definition sim_open :: "string \<Rightarrow> cint \<Rightarrow> sim_world \<Rightarrow> (cint \<times> urlptr) \<times> sim_world" where
  "sim_open fn flags w =
     (case map_of (fs w) fn of
        None \<Rightarrow> ((AVERROR ENOENT, NULL), w)
      | Some Vanished \<Rightarrow> ((AVERROR ENOENT, NULL), w)
      | Some e \<Rightarrow> ((0, next_ptr w),
                    w\<lparr>handles := (next_ptr w, fn, 0) # handles w, next_ptr := Suc (next_ptr w)\<rparr>))"

definition sim_size :: "urlptr \<Rightarrow> sim_world \<Rightarrow> int64 \<times> sim_world" where
  "sim_size p w =
     (case map_of (handles w) p of
        None \<Rightarrow> (scast (AVERROR EBADF), w)
      | Some (fn, pos) \<Rightarrow>
          (case sim_length w fn of
             None \<Rightarrow> (scast (AVERROR ENOSYS), w)
           | Some n \<Rightarrow> (of_int n, w)))"

definition sim_close :: "urlptr \<Rightarrow> sim_world \<Rightarrow> cint \<times> sim_world" where
  "sim_close p w =
     (case map_of (handles w) p of
        None \<Rightarrow> (if p = NULL then 0 else AVERROR EBADF, w)
      | Some h \<Rightarrow> (0, w\<lparr>handles := filter (\<lambda>h. fst h \<noteq> p) (handles w)\<rparr>))"

definition sim_seek :: "urlptr \<Rightarrow> int64 \<Rightarrow> cint \<Rightarrow> sim_world \<Rightarrow> int64 \<times> sim_world" where
  "sim_seek p off whence w =
     (case map_of (handles w) p of
        None \<Rightarrow> (scast (AVERROR EBADF), w)
      | Some (fn, pos) \<Rightarrow>
          (let len = (case sim_length w fn of None \<Rightarrow> 0 | Some n \<Rightarrow> n);
               target = (if whence = SEEK_SET then sint off
                         else if whence = SEEK_CUR then pos + sint off
                         else if whence = SEEK_END then len + sint off
                         else - 1)
           in if target < 0 then (scast (AVERROR EINVAL), w)
              else (of_int target, w\<lparr>handles := set_pos p target (handles w)\<rparr>)))"

definition sim_read :: "urlptr \<Rightarrow> cint \<Rightarrow> sim_world \<Rightarrow> (cint \<times> byte list) \<times> sim_world" where
  "sim_read p sz w =
     (case map_of (handles w) p of
        None \<Rightarrow> ((AVERROR EBADF, []), w)
      | Some (fn, pos) \<Rightarrow>
          (case sim_length w fn of
             None \<Rightarrow> ((0, []), w)
           | Some n \<Rightarrow>
               (let k = max 0 (min (sint sz) (n - pos))
                in ((of_int k, sim_bytes w fn pos k),
                    w\<lparr>handles := set_pos p (pos + k) (handles w)\<rparr>))))"

definition sim_access :: "string \<Rightarrow> sim_world \<Rightarrow> cint" where
  "sim_access fn w = (if map_of (fs w) fn = None then - 1 else 0)"

definition sim :: "sim_world accessor" where
  "sim = \<lparr>ffurl_open = sim_open, ffurl_read = sim_read, ffurl_seek = sim_seek,
          ffurl_size = sim_size, ffurl_close = sim_close, access_R_OK = sim_access,
          uc_flags = (\<lambda>p w. 1)\<rparr>"

definition sim_live :: "sim_world \<Rightarrow> urlptr set" where
  "sim_live w = fst ` set (handles w)"

text \<open>A world with the given files and no open handle, and the data before \<^verbatim>\<open>flccat_open\<close>.\<close>

definition sim_files :: "(string \<times> sim_entry) list \<Rightarrow> sim_world" where
  "sim_files fl = \<lparr>fs = fl, handles = [], next_ptr = 1\<rparr>"

definition blank :: flccat_data where
  "blank = \<lparr>current = \<lparr>uc = NULL, node_size = 0\<rparr>, idx = 0, filename_fmt = [],
            segment_start = 0\<rparr>"

text \<open>The loops are run on concrete states by their unfolding equations.\<close>

declare flccat_read_loop.simps [code]
declare seek_relative_backward.simps [code]
declare seek_relative_forward.simps [code]
declare go_forward_loop.simps [code]

subsection \<open>What the claims speak about\<close>

text \<open>
  The handles that are open in a world, as a set \<open>live w\<close>, for an accessor that keeps its
  books: a failed \<^verbatim>\<open>ffurl_open\<close> opens nothing, a successful one opens the handle it
  returns, \<^verbatim>\<open>ffurl_size\<close> opens and closes nothing, and \<^verbatim>\<open>ffurl_close\<close> closes its
  argument whatever it returns.
\<close>

definition handle_contract :: "'w accessor \<Rightarrow> ('w \<Rightarrow> urlptr set) \<Rightarrow> bool" where
  "handle_contract A live \<longleftrightarrow>
     (\<forall>fn fl w. live (snd (ffurl_open A fn fl w)) =
        (if fst (fst (ffurl_open A fn fl w)) <s 0 then live w
         else insert (snd (fst (ffurl_open A fn fl w))) (live w)))
   \<and> (\<forall>p w. live (snd (ffurl_size A p w)) = live w)
   \<and> (\<forall>p w. live (snd (ffurl_close A p w)) = live w - {p})"

text \<open>
  The local offset within the current segment is what \<^verbatim>\<open>ffurl_seek(uc, 0, SEEK_CUR)\<close>
  reports (lines 247 and 335), and the virtual offset is \<^verbatim>\<open>segment_start\<close> plus the local
  offset (line 336). An accessor whose seek to the start, when it succeeds, leaves the
  handle at local offset 0 satisfies \<open>seek_contract\<close>.
\<close>

definition local_offset :: "'w accessor \<Rightarrow> flccat_data \<Rightarrow> 'w \<Rightarrow> int64" where
  "local_offset A d w = fst (ffurl_seek A (uc (current d)) 0 SEEK_CUR w)"

definition virtual_offset :: "'w accessor \<Rightarrow> flccat_data \<Rightarrow> 'w \<Rightarrow> int64" where
  "virtual_offset A d w = segment_start d + local_offset A d w"

definition seek_contract :: "'w accessor \<Rightarrow> bool" where
  "seek_contract A \<longleftrightarrow>
     (\<forall>p w. \<not> fst (ffurl_seek A p 0 SEEK_SET w) <s 0 \<longrightarrow>
        fst (ffurl_seek A p 0 SEEK_CUR (snd (ffurl_seek A p 0 SEEK_SET w))) = 0)"

text \<open>
  The size of the segment \<^verbatim>\<open>open_filename\<close> opens: what \<^verbatim>\<open>ffurl_size\<close> answers for the handle
  \<^verbatim>\<open>ffurl_open\<close> has just returned.
\<close>

definition opened_size :: "'w accessor \<Rightarrow> string \<Rightarrow> cint \<Rightarrow> 'w \<Rightarrow> int64" where
  "opened_size A filename flags w =
     fst (ffurl_size A (snd (fst (ffurl_open A filename flags w)))
            (snd (ffurl_open A filename flags w)))"

text \<open>
  The spec's words for the end-relative seek, "repeatedly call progress(Forward)": \<open>n\<close>
  forward transitions in a row, each of which switched.
\<close>

fun go_forward_n ::
  "'w accessor \<Rightarrow> nat \<Rightarrow> flccat_data \<Rightarrow> 'w \<Rightarrow> (flccat_data \<times> 'w) option" where
  "go_forward_n A 0 d w = Some (d, w)"
| "go_forward_n A (Suc n) d w =
     (case go_forward A d w of
        None \<Rightarrow> None
      | Some (p, d1, w1) \<Rightarrow> if 0 <s p then go_forward_n A n d1 w1 else None)"

subsection \<open>Concrete streams on the simulated accessor\<close>

definition seg_data :: "string \<Rightarrow> cint \<Rightarrow> urlptr \<Rightarrow> int64 \<Rightarrow> int64 \<Rightarrow> flccat_data" where
  "seg_data fmt i p sz start =
     \<lparr>current = \<lparr>uc = p, node_size = sz\<rparr>, idx = i, filename_fmt = fmt,
      segment_start = start\<rparr>"

definition sim_state ::
  "(string \<times> sim_entry) list \<Rightarrow> (urlptr \<times> string \<times> int) list \<Rightarrow> urlptr \<Rightarrow> sim_world" where
  "sim_state fl hs n = \<lparr>fs = fl, handles = hs, next_ptr = n\<rparr>"

text \<open>Two segments and a third that is listed but gone when it is opened.\<close>

definition vanishing_files :: "(string \<times> sim_entry) list" where
  "vanishing_files = [(''a0'', File [1, 2]), (''a1'', File [3, 4]), (''a2'', Vanished)]"

text \<open>A segment below the seed that is gone when it is opened.\<close>

definition ring_files :: "(string \<times> sim_entry) list" where
  "ring_files = [(''b4'', Vanished), (''b5'', File [1])]"

text \<open>
  Two segments of two bytes and one byte, the seed being the second; and the same with an
  empty first segment.
\<close>

definition back_files :: "(string \<times> sim_entry) list" where
  "back_files = [(''f0'', File [9, 8]), (''f1'', File [1])]"

definition empty_back_files :: "(string \<times> sim_entry) list" where
  "empty_back_files = [(''f0'', File []), (''f1'', File [1])]"

text \<open>A seed segment that opens but has no size.\<close>

definition unsized_files :: "(string \<times> sim_entry) list" where
  "unsized_files = [(''u1'', Unsized)]"

text \<open>Two segments of two bytes and one byte.\<close>

definition two_files :: "(string \<times> sim_entry) list" where
  "two_files = [(''a0'', File [1, 2]), (''a1'', File [3])]"

text \<open>A single segment of one byte.\<close>

definition single_file :: "(string \<times> sim_entry) list" where
  "single_file = [(''a0'', File [7])]"

text \<open>A segment of \<open>2 ^ 31\<close> bytes followed by one of ten bytes.\<close>

definition big_files :: "(string \<times> sim_entry) list" where
  "big_files = [(''s0'', Zeros 2147483648), (''s1'', Zeros 10)]"

text \<open>A segment of one byte followed by an empty last segment.\<close>

definition empty_last_files :: "(string \<times> sim_entry) list" where
  "empty_last_files = [(''e0'', File [5]), (''e1'', File [])]"

text \<open>
  A stream whose current segment has lost its size since it was opened (its cached size
  is 2), with a next segment of two bytes.
\<close>

definition lost_size_files :: "(string \<times> sim_entry) list" where
  "lost_size_files = [(''q0'', Unsized), (''q1'', File [3, 4])]"

text \<open>Two segments of two and three bytes.\<close>

definition last_three_files :: "(string \<times> sim_entry) list" where
  "last_three_files = [(''a0'', File [1, 2]), (''a1'', File [3, 4, 5])]"

section \<open>Properties\<close>

subsection \<open>Signed comparisons\<close>

lemma scast_neg_iff: "(scast (e::cint) :: int64) <s 0 \<longleftrightarrow> e <s 0"
  by (simp add: word_sless_alt sint_up_scast is_up)

lemma scast_neg_nonzero: "(e::cint) <s 0 \<Longrightarrow> (scast e :: int64) \<noteq> 0"
  using scast_neg_iff [of e] by (auto simp: word_sless_alt)

lemma zero_not_neg32 [simp]: "\<not> (0::cint) <s 0"
  by (simp add: word_sless_alt)

lemma zero_not_neg64 [simp]: "\<not> (0::int64) <s 0"
  by (simp add: word_sless_alt)

lemma one_not_neg64 [simp]: "\<not> (1::int64) <s 0"
  by (simp add: word_sless_alt)

lemma neg_not_one64: "(x::int64) <s 0 \<Longrightarrow> x \<noteq> 1"
  by auto

lemma one_pos32 [simp]: "(0::cint) <s 1"
  by (simp add: word_sless_alt)

lemma minus_one_not_pos32 [simp]: "\<not> (0::cint) <s - 1"
  by (simp add: word_sless_alt)

lemma scast_neg_not_one: "(e::cint) <s 0 \<Longrightarrow> (scast e :: int64) = 1 \<Longrightarrow> False"
  using scast_neg_iff [of e] by simp

lemma averror_enosys_neg [simp]: "AVERROR ENOSYS <s 0"
  by (simp add: AVERROR_def ENOSYS_def word_sless_alt)

lemma averror_enoent_neg [simp]: "AVERROR ENOENT <s 0"
  by (simp add: AVERROR_def ENOENT_def word_sless_alt)

lemma averror_neg64 [simp]:
  "(scast (AVERROR EBADF) :: int64) <s 0" "(scast (AVERROR EINVAL) :: int64) <s 0"
  by (simp_all add: AVERROR_def EBADF_def EINVAL_def word_sless_alt)

lemma sint_diff_no_overflow:
  fixes a b :: int64
  assumes "- (2 ^ 63) \<le> sint a - sint b" and "sint a - sint b < 2 ^ 63"
  shows "sint (a - b) = sint a - sint b"
  using assms by (simp add: sint_word_diff signed_take_bit_int_eq_self)

lemma scast_ucast_int_range:
  fixes x :: int64
  assumes "- (2 ^ 31) \<le> sint x" and "sint x < 2 ^ 31"
  shows "scast (ucast x :: cint) = x"
proof -
  have "(ucast (word_of_int (sint x) :: int64) :: cint) = word_of_int (sint x)"
    by (rule ucast_down_wi) (simp add: is_down)
  then have u: "(ucast x :: cint) = word_of_int (sint x)"
    by simp
  have "sint (word_of_int (sint x) :: cint) = signed_take_bit 31 (sint x)"
    by (simp only: sint_sbintrunc') simp
  also have "\<dots> = sint x"
    using assms by (simp add: signed_take_bit_int_eq_self)
  finally have "sint (ucast x :: cint) = sint x"
    by (simp only: u)
  then have "sint (scast (ucast x :: cint) :: int64) = sint x"
    by (simp add: sint_up_scast is_up)
  then show ?thesis by (rule signed_word_eqI)
qed

subsection \<open>The accessor's books\<close>

lemma hc_open:
  assumes "handle_contract A live" and "ffurl_open A fn fl w = ((err, p), w1)"
  shows "live w1 = (if err <s 0 then live w else insert p (live w))"
proof -
  from assms(1) have "live (snd (ffurl_open A fn fl w)) =
        (if fst (fst (ffurl_open A fn fl w)) <s 0 then live w
         else insert (snd (fst (ffurl_open A fn fl w))) (live w))"
    unfolding handle_contract_def by blast
  then show ?thesis by (simp add: assms(2))
qed

lemma hc_size:
  assumes "handle_contract A live" and "ffurl_size A p w = (r, w1)"
  shows "live w1 = live w"
proof -
  from assms(1) have "live (snd (ffurl_size A p w)) = live w"
    unfolding handle_contract_def by blast
  then show ?thesis by (simp add: assms(2))
qed

lemma hc_close:
  assumes "handle_contract A live" and "ffurl_close A p w = (c, w1)"
  shows "live w1 = live w - {p}"
proof -
  from assms(1) have "live (snd (ffurl_close A p w)) = live w - {p}"
    unfolding handle_contract_def by blast
  then show ?thesis by (simp add: assms(2))
qed

lemma map_of_set_pos:
  "map_of hs p = Some (fn, pos) \<Longrightarrow> map_of (set_pos p n hs) p = Some (fn, n)"
  by (induction hs) (auto simp: set_pos_def split: if_splits)

lemma fst_filter_neq: "fst ` set (filter (\<lambda>h. fst h \<noteq> p) hs) = fst ` set hs - {p}"
  by (induction hs) auto

lemma sim_handle_contract: "handle_contract sim sim_live"
  unfolding handle_contract_def
proof (intro conjI allI)
  fix fn fl w
  show "sim_live (snd (ffurl_open sim fn fl w)) =
        (if fst (fst (ffurl_open sim fn fl w)) <s 0 then sim_live w
         else insert (snd (fst (ffurl_open sim fn fl w))) (sim_live w))"
    by (simp add: sim_def sim_open_def sim_live_def split: option.splits sim_entry.splits)
next
  fix p w
  show "sim_live (snd (ffurl_size sim p w)) = sim_live w"
    by (simp add: sim_def sim_size_def split: option.splits prod.splits)
next
  fix p w
  show "sim_live (snd (ffurl_close sim p w)) = sim_live w - {p}"
    by (auto simp: sim_def sim_close_def sim_live_def fst_filter_neq map_of_eq_None_iff
             split: option.splits)
qed

lemma sim_seek_contract: "seek_contract sim"
  unfolding seek_contract_def
proof (intro allI impI)
  fix p w
  assume ok: "\<not> fst (ffurl_seek sim p 0 SEEK_SET w) <s 0"
  then obtain fn pos where h: "map_of (handles w) p = Some (fn, pos)"
    by (cases "map_of (handles w) p") (auto simp: sim_def sim_seek_def)
  have s: "ffurl_seek sim p 0 SEEK_SET w = (0, w\<lparr>handles := set_pos p 0 (handles w)\<rparr>)"
    using h by (simp add: sim_def sim_seek_def)
  show "fst (ffurl_seek sim p 0 SEEK_CUR (snd (ffurl_seek sim p 0 SEEK_SET w))) = 0"
    using map_of_set_pos [OF h, of 0]
    by (simp add: s) (simp add: sim_def sim_seek_def SEEK_SET_def SEEK_CUR_def)
qed

subsection \<open>Opening one segment\<close>

lemma open_filename_open_fails:
  assumes "ffurl_open A filename flags w = ((err, p), w1)" and "err <s 0"
  shows "open_filename A filename flags d w = (err, d\<lparr>current := (current d)\<lparr>uc := p\<rparr>\<rparr>, w1)"
  using assms by (simp add: open_filename_def)

lemma open_filename_size_fails:
  assumes "ffurl_open A filename flags w = ((err, p), w1)" and "\<not> err <s 0"
    and "ffurl_size A p w1 = (r, w2)" and "r <s 0"
    and "ffurl_close A p w2 = (c, w3)"
  shows "open_filename A filename flags d w =
           (AVERROR ENOSYS, d\<lparr>current := (current d)\<lparr>uc := p\<rparr>\<rparr>, w3)"
  using assms by (simp add: open_filename_def update_current_size_def)

lemma open_filename_ok:
  assumes "ffurl_open A filename flags w = ((err, p), w1)" and "\<not> err <s 0"
    and "ffurl_size A p w1 = (r, w2)" and "\<not> r <s 0"
  shows "open_filename A filename flags d w =
           (0, d\<lparr>current := (current d)\<lparr>uc := p, node_size := r\<rparr>\<rparr>, w2)"
  using assms by (simp add: open_filename_def update_current_size_def)

lemma open_filename_fail_live:
  assumes hc: "handle_contract A live"
    and op: "open_filename A filename flags d w = (e, d', w')"
    and opf: "e <s 0"
  shows "live w' \<subseteq> live w"
proof -
  obtain err p w1 where o: "ffurl_open A filename flags w = ((err, p), w1)"
    by (metis prod.exhaust)
  note l1 = hc_open [OF hc o]
  show ?thesis
  proof (cases "err <s 0")
    case True
    then show ?thesis using op l1 open_filename_open_fails [OF o True, of d] by simp
  next
    case False
    obtain r w2 where sz: "ffurl_size A p w1 = (r, w2)"
      by (metis prod.exhaust)
    note l2 = hc_size [OF hc sz]
    obtain c w3 where cl: "ffurl_close A p w2 = (c, w3)"
      by (metis prod.exhaust)
    note l3 = hc_close [OF hc cl]
    have r: "r <s 0"
    proof (rule ccontr)
      assume "\<not> r <s 0"
      from open_filename_ok [OF o False sz this, of d] op opf show False by simp
    qed
    have "w' = w3"
      using open_filename_size_fails [OF o False sz r cl, of d] op by simp
    then show ?thesis using l1 l2 l3 False by auto
  qed
qed

lemma open_filename_data:
  assumes op: "open_filename A filename flags d w = (e, d', w')"
  shows "idx d' = idx d \<and> segment_start d' = segment_start d \<and> filename_fmt d' = filename_fmt d"
  using op
  by (auto simp: open_filename_def update_current_size_def Let_def split: prod.splits if_splits)

lemma open_filename_ok_size:
  assumes op: "open_filename A filename flags d w = (e, d', w')" and ok: "\<not> e <s 0"
  shows "\<not> node_size (current d') <s 0"
proof -
  obtain err p w1 where o: "ffurl_open A filename flags w = ((err, p), w1)"
    by (metis prod.exhaust)
  obtain r w2 where sz: "ffurl_size A p w1 = (r, w2)"
    by (metis prod.exhaust)
  obtain c w3 where cl: "ffurl_close A p w2 = (c, w3)"
    by (metis prod.exhaust)
  have e: "\<not> err <s 0"
    using open_filename_open_fails [OF o, of d] op ok by auto
  have r: "\<not> r <s 0"
    using open_filename_size_fails [OF o e sz _ cl, of d] op ok by auto
  show ?thesis
    using open_filename_ok [OF o e sz r, of d] op r by auto
qed

lemma open_filename_ok_opened_size:
  assumes op: "open_filename A filename flags d w = (e, d', w')" and ok: "\<not> e <s 0"
  shows "node_size (current d') = opened_size A filename flags w"
proof -
  obtain err p w1 where o: "ffurl_open A filename flags w = ((err, p), w1)"
    by (metis prod.exhaust)
  obtain r w2 where sz: "ffurl_size A p w1 = (r, w2)"
    by (metis prod.exhaust)
  obtain c w3 where cl: "ffurl_close A p w2 = (c, w3)"
    by (metis prod.exhaust)
  have e: "\<not> err <s 0"
    using open_filename_open_fails [OF o, of d] op ok by auto
  have r: "\<not> r <s 0"
    using open_filename_size_fails [OF o e sz _ cl, of d] op ok by auto
  show ?thesis
    using open_filename_ok [OF o e sz r, of d] op o sz by (auto simp: opened_size_def)
qed

subsection \<open>A transition that switched\<close>

lemma progress_switchedD:
  assumes pr: "progress A direction d w = Some (1, d', w')"
  shows "\<exists>filename e1 w2 e2 d2 w3 e3.
           (direction = 1 \<or> direction = - 1)
         \<and> filename_from_idx (filename_fmt d) (idx d + direction) = Some filename
         \<and> file_exist_filename A filename w
         \<and> close_current A d (snd (ffurl_size A (uc (current d)) w)) = (e1, w2)
         \<and> \<not> e1 <s 0
         \<and> uc (current d) \<noteq> NULL
         \<and> open_filename A filename (uc_flags A (uc (current d)) w2) d w2 = (e2, d2, w3)
         \<and> \<not> e2 <s 0
         \<and> d' = (if 0 <s direction
                  then d2\<lparr>idx := idx d2 + direction,
                          segment_start := segment_start d2 + fst (ffurl_size A (uc (current d)) w)\<rparr>
                  else d2\<lparr>idx := idx d2 + direction,
                          segment_start := segment_start d2 - node_size (current d2)\<rparr>)
         \<and> ffurl_seek A (uc (current d2)) 0 SEEK_SET w3 = (e3, w')
         \<and> \<not> e3 <s 0"
  using pr unfolding progress_def
  by (auto simp: Let_def scast_neg_iff split: if_splits option.splits prod.splits
           dest: neg_not_one64 scast_neg_not_one)

lemma progress_not_switched:
  assumes "progress A direction d w = Some (0, d', w')"
  shows "d' = d \<and> w' = w"
  using assms unfolding progress_def
  by (auto simp: Let_def scast_neg_iff split: if_splits option.splits prod.splits
           dest: scast_neg_nonzero)

lemma progress_null_dereference:
  assumes "direction = 1 \<or> direction = - 1"
    and "filename_from_idx (filename_fmt d) (idx d + direction) = Some filename"
    and "file_exist_filename A filename w"
    and "\<not> fst (close_current A d (snd (ffurl_size A (uc (current d)) w))) <s 0"
    and "uc (current d) = NULL"
  shows "progress A direction d w = None"
  using assms by (auto simp: progress_def scast_neg_iff split: prod.splits)

subsection \<open>A seek that stays in the current segment\<close>

lemma seek_relative_within_segment:
  assumes "ffurl_seek A (uc (current d)) 0 SEEK_CUR w = (offset, w0)"
    and "\<not> offset + pos <s 0"
    and "\<not> node_size (current d) <s offset + pos"
    and "ffurl_seek A (uc (current d)) (offset + pos) SEEK_SET w0 = (o1, w3)"
    and "\<not> o1 <s 0"
  shows "seek_relative A pos d w = Some (segment_start d + o1, d, w3)"
proof -
  have b: "seek_relative_backward A offset pos d w0 = Some (Inr pos, d, w0)"
    using assms(2) by (subst seek_relative_backward.simps) simp
  have f: "seek_relative_forward A offset pos d w0 = Some (Inr pos, d, w0)"
    using assms(3) by (subst seek_relative_forward.simps) simp
  show ?thesis
    using assms(1,4,5) by (simp add: seek_relative_def b f)
qed

lemma negative_start_plus_offset:
  fixes a b :: int64
  assumes "a <s 0" and "\<not> b <s 0" and "sint a + sint b < 0"
  shows "a + b <s 0"
proof -
  have "- (2 ^ 63) \<le> sint a" using sint_ge [of a] by simp
  moreover have "sint b < 2 ^ 63" using sint_lt [of b] by simp
  moreover have "sint a < 0" "0 \<le> sint b" using assms(1,2) by (simp_all add: word_sless_alt)
  ultimately have "sint (a + b) = sint a + sint b"
    by (simp add: sint_word_ariths signed_take_bit_int_eq_self)
  then show ?thesis using assms(3) by (simp add: word_sless_alt)
qed

subsection \<open>Digits, the two scanning loops and the format\<close>

lemma digit_char_props:
  assumes "d < 10"
  shows "isdigit (digit_char d)" and "digit_val (digit_char d) = d"
proof -
  from assms have "d \<in> {0, 1, 2, 3, 4, 5, 6, 7, 8, 9}" by auto
  then show "isdigit (digit_char d)"
    by (elim insertE emptyE; simp add: digit_char_def isdigit_def)
  from \<open>d \<in> {0, 1, 2, 3, 4, 5, 6, 7, 8, 9}\<close> show "digit_val (digit_char d) = d"
    by (elim insertE emptyE; simp add: digit_char_def digit_val_def)
qed

lemma isdigit_val_le: "isdigit c \<Longrightarrow> digit_val c \<le> 9"
  by (auto simp: isdigit_def digit_val_def)

lemma isdigit_not_space: "isdigit c \<Longrightarrow> \<not> isspace c"
  by (auto simp: isdigit_def isspace_def)

lemma isdigit_not_sign: "isdigit c \<Longrightarrow> c \<noteq> CHR ''-'' \<and> c \<noteq> CHR ''+''"
  by (auto simp: isdigit_def)

lemma dec_value_acc_append:
  "dec_value_acc a (xs @ ys) = dec_value_acc (dec_value_acc a xs) ys"
  by (induction xs arbitrary: a) auto

lemma dec_value_snoc: "dec_value (xs @ [c]) = dec_value xs * 10 + digit_val c"
  by (simp add: dec_value_def dec_value_acc_append)

lemma dec_value_dec_nat: "dec_value (dec_nat n) = n"
proof (induction n rule: dec_nat.induct)
  case (1 n)
  show ?case
  proof (cases "n < 10")
    case True
    then show ?thesis
      by (subst dec_nat.simps) (simp add: dec_value_def digit_char_props)
  next
    case False
    have "n mod 10 < 10" by simp
    then show ?thesis
      using False 1
      by (subst dec_nat.simps) (simp add: dec_value_snoc digit_char_props)
  qed
qed

lemma dec_nat_digits: "\<forall>c\<in>set (dec_nat n). isdigit c"
proof (induction n rule: dec_nat.induct)
  case (1 n)
  have "n mod 10 < 10" by simp
  then show ?case
    using 1 by (subst dec_nat.simps) (auto simp: digit_char_props)
qed

lemma length_dec_nat: "0 < k \<Longrightarrow> n < 10 ^ k \<Longrightarrow> length (dec_nat n) \<le> k"
proof (induction n arbitrary: k rule: dec_nat.induct)
  case (1 n)
  show ?case
  proof (cases "n < 10")
    case True
    then show ?thesis using 1(2) by (subst dec_nat.simps) simp
  next
    case False
    then have "1 < k" using 1(2,3)
      by (metis One_nat_def Suc_lessI not_less power_one_right)
    then obtain k' where k: "k = Suc k'" and k': "0 < k'"
      by (cases k) auto
    have "n div 10 < 10 ^ k'" using 1(3) k by (simp add: less_mult_imp_div_less mult.commute)
    then have "length (dec_nat (n div 10)) \<le> k'" using 1(1) [OF False k'] by simp
    then show ?thesis using False k by (subst dec_nat.simps) simp
  qed
qed

lemma dec_value_acc_bound:
  "\<forall>c\<in>set ds. isdigit c \<Longrightarrow> a < 10 ^ m \<Longrightarrow> dec_value_acc a ds < 10 ^ (m + length ds)"
proof (induction ds arbitrary: a m)
  case Nil
  then show ?case by simp
next
  case (Cons c ds)
  have "digit_val c \<le> 9" using Cons.prems(1) by (simp add: isdigit_val_le)
  moreover have "a * 10 + 10 \<le> 10 ^ Suc m" using Cons.prems(2)
    by (metis Suc_leI add.commute mult.commute mult_Suc_right mult_le_mono2 power_Suc)
  ultimately have "a * 10 + digit_val c < 10 ^ Suc m" by linarith
  from Cons.IH [OF _ this] Cons.prems(1) show ?case by simp
qed

lemma dec_value_bound: "\<forall>c\<in>set ds. isdigit c \<Longrightarrow> dec_value ds < 10 ^ length ds"
  using dec_value_acc_bound [of ds 0 0] by (simp add: dec_value_def)

lemma length_dec_nat_dec_value:
  assumes "ds \<noteq> []" and "\<forall>c\<in>set ds. isdigit c"
  shows "length (dec_nat (dec_value ds)) \<le> length ds"
  using length_dec_nat [of "length ds" "dec_value ds"] dec_value_bound [OF assms(2)] assms(1)
  by simp

lemma skip_nondigits_suffix:
  assumes "xs \<noteq> []" and "isdigit (last xs)" and "\<forall>c\<in>set suf. \<not> isdigit c"
    and "k \<le> length suf"
  shows "skip_nondigits (xs @ suf) (length xs - 1 + k) = length xs - 1"
  using assms(4)
proof (induction k)
  case 0
  show ?case
  proof (cases "length xs - 1")
    case 0
    then show ?thesis by simp
  next
    case (Suc m)
    then have "Suc m < length xs" by arith
    then have "(xs @ suf) ! Suc m = last xs"
      using assms(1) Suc by (simp add: last_conv_nth nth_append)
    then show ?thesis using Suc assms(2) by simp
  qed
next
  case (Suc k)
  have len: "length xs - 1 + Suc k = Suc (length xs - 1 + k)" by simp
  have e: "Suc (length xs - 1 + k) = length xs + k" using assms(1) by (cases xs) auto
  have "(xs @ suf) ! Suc (length xs - 1 + k) = suf ! k"
    unfolding e by (rule nth_append_length_plus)
  moreover have "\<not> isdigit (suf ! k)" using assms(3) Suc.prems by simp
  ultimately show ?case using Suc by simp
qed

lemma skip_digits_run:
  assumes "pre \<noteq> []" and "\<not> isdigit (last pre)" and "\<forall>c\<in>set ds. isdigit c"
    and "k \<le> length ds"
  shows "skip_digits (pre @ ds @ suf) (length pre - 1 + k) = length pre - 1"
  using assms(4)
proof (induction k)
  case 0
  show ?case
  proof (cases "length pre - 1")
    case 0
    then show ?thesis by simp
  next
    case (Suc m)
    then have "Suc m < length pre" by arith
    then have "(pre @ ds @ suf) ! Suc m = last pre"
      using assms(1) Suc by (simp add: last_conv_nth nth_append)
    then show ?thesis using Suc assms(2) by simp
  qed
next
  case (Suc k)
  have len: "length pre - 1 + Suc k = Suc (length pre - 1 + k)" by simp
  have e: "Suc (length pre - 1 + k) = length pre + k" using assms(1) by (cases pre) auto
  have "(pre @ ds @ suf) ! Suc (length pre - 1 + k) = (ds @ suf) ! k"
    unfolding e by (rule nth_append_length_plus)
  then have "(pre @ ds @ suf) ! Suc (length pre - 1 + k) = ds ! k"
    using Suc.prems by (simp add: nth_append)
  moreover have "isdigit (ds ! k)" using assms(3) Suc.prems by simp
  ultimately show ?case using Suc by simp
qed

lemma takeWhile_no_digit: "\<forall>c\<in>set suf. \<not> isdigit c \<Longrightarrow> takeWhile isdigit suf = []"
  by (cases suf) auto

lemma strtol_digits:
  assumes "ds \<noteq> []" and "\<forall>c\<in>set ds. isdigit c" and "\<forall>c\<in>set suf. \<not> isdigit c"
    and "dec_value ds < 2 ^ 31"
  shows "strtol (ds @ suf) = int (dec_value ds)"
proof -
  have c: "isdigit (hd ds)" using assms(1,2) by simp
  have hd: "hd (ds @ suf) = hd ds" and ne: "ds @ suf \<noteq> []" using assms(1) by simp_all
  have s1: "dropWhile isspace (ds @ suf) = ds @ suf"
    using isdigit_not_space [OF c] assms(1) by (cases ds) simp_all
  have tw: "takeWhile isdigit (ds @ suf) = ds"
    using assms(2,3) by (simp add: takeWhile_append2 takeWhile_no_digit)
  have rng: "max LONG_MIN (min LONG_MAX (int (dec_value ds))) = int (dec_value ds)"
    using assms(4) by (simp add: LONG_MAX_def LONG_MIN_def)
  show ?thesis
    unfolding strtol_def Let_def s1 hd
    using isdigit_not_sign [OF c] ne tw rng by simp
qed

lemma format_d_plain_Cons:
  "c \<noteq> CHR ''%'' \<Longrightarrow> format_d (c # xs) i u = map_option ((#) c) (format_d xs i u)"
  by (cases xs) auto

lemma format_d_plain: "CHR ''%'' \<notin> set xs \<Longrightarrow> format_d xs i u = Some xs"
  by (induction xs) (auto simp: format_d_plain_Cons)

lemma format_d_template:
  assumes "CHR ''%'' \<notin> set pre" and "CHR ''%'' \<notin> set suf"
  shows "format_d (pre @ ''%d'' @ suf) i False = Some (pre @ dec_int (sint i) @ suf)"
  using assms(1)
proof (induction pre)
  case Nil
  then show ?case using assms(2) by (simp add: format_d_plain)
next
  case (Cons c pre)
  then have "c \<noteq> CHR ''%''" by auto
  then show ?case using Cons by (simp add: format_d_plain_Cons)
qed

lemma sint_word_of_int_small:
  assumes "0 \<le> k" and "k < 2 ^ 31"
  shows "sint (word_of_int k :: cint) = k"
proof -
  have "sint (word_of_int k :: cint) = signed_take_bit 31 k"
    by (simp only: sint_sbintrunc') simp
  then show ?thesis using assms by (simp add: signed_take_bit_int_eq_self)
qed

lemma parse_uri_template:
  assumes uri: "av_strstart uri0 ''flccat:'' = pre @ ds @ suf"
    and pre: "pre \<noteq> []" "\<not> isdigit (last pre)"
    and ds: "ds \<noteq> []" "\<forall>c\<in>set ds. isdigit c"
    and suf: "\<forall>c\<in>set suf. \<not> isdigit c"
    and len: "length (pre @ ds @ suf) < FILENAME_FMT_MAX_LENGTH"
  shows "parse_uri uri0 d =
           (0, d\<lparr>idx := word_of_int (strtol (ds @ suf)), filename_fmt := pre @ ''%d'' @ suf\<rparr>)"
proof -
  let ?uri = "pre @ ds @ suf"
  have ne: "?uri \<noteq> []" using pre by simp
  have ulen: "strnlen ?uri (FILENAME_FMT_MAX_LENGTH - 1) = length ?uri"
    using len by (simp add: strnlen_def)
  have "skip_nondigits ((pre @ ds) @ suf) (length (pre @ ds) - 1 + length suf)
          = length (pre @ ds) - 1"
    using ds suf by (intro skip_nondigits_suffix) auto
  moreover have "length (pre @ ds) - 1 + length suf = length ?uri - 1"
    using ds by (cases ds) auto
  ultimately have c1: "skip_nondigits ?uri (length ?uri - 1) = length pre + length ds - 1"
    by simp
  have "skip_digits ?uri (length pre - 1 + length ds) = length pre - 1"
    using pre ds by (intro skip_digits_run) auto
  moreover have "length pre - 1 + length ds = length pre + length ds - 1"
    using pre by (cases pre) auto
  ultimately have c2: "skip_digits ?uri (length pre + length ds - 1) = length pre - 1"
    by simp
  have nb: "length pre - 1 + 1 = length pre" using pre by (cases pre) auto
  have ne2: "length pre + length ds - 1 + 1 = length pre + length ds"
    using pre by (cases pre) auto
  have neq: "length pre \<noteq> length pre + length ds" using ds by simp
  have dr: "drop (length pre) ?uri = ds @ suf" by simp
  have p1: "av_strlcpy ?uri (length pre + 1) = pre" by (simp add: av_strlcpy_def)
  have p2: "av_strlcpy ''%d'' (2 + 1) = ''%d''" by (simp add: av_strlcpy_def)
  have p3: "av_strlcpy (drop (length pre + length ds) ?uri)
              (length ?uri - (length pre + length ds) + 1) = suf"
    by (simp add: av_strlcpy_def)
  show ?thesis
    unfolding parse_uri_def uri Let_def ulen c1 c2 nb ne2 dr p1 p2 p3
    using ne neq by simp
qed

lemma skip_nondigits_none:
  "(\<forall>i. 0 < i \<and> i \<le> n \<longrightarrow> \<not> isdigit (uri ! i)) \<Longrightarrow> skip_nondigits uri n = 0"
  by (induction n) auto

lemma parse_uri_overflow:
  "parse_uri ''flccat:f4294967296'' blank = (0, seg_data ''f%d'' 0 NULL 0 0)"
proof -
  have h1: "av_strstart ''flccat:f4294967296'' ''flccat:'' = ''f'' @ ''4294967296'' @ []"
    by code_simp
  have h2: "''f'' \<noteq> []" by simp
  have h3: "\<not> isdigit (last ''f'')" by code_simp
  have h4: "''4294967296'' \<noteq> []" by simp
  have h5: "\<forall>c\<in>set ''4294967296''. isdigit c" by code_simp
  have h6: "\<forall>c\<in>set []. \<not> isdigit c" by simp
  have h7: "length (''f'' @ ''4294967296'' @ []) < FILENAME_FMT_MAX_LENGTH"
    by (simp add: FILENAME_FMT_MAX_LENGTH_def)
  have s: "strtol (''4294967296'' @ []) = 4294967296"
    by (simp add: strtol_def isdigit_def isspace_def dec_value_def digit_val_def
          LONG_MAX_def LONG_MIN_def Let_def)
  show ?thesis
    using parse_uri_template [OF h1 h2 h3 h4 h5 h6 h7, of blank]
    by (simp only: s) (simp add: blank_def seg_data_def)
qed

lemma parse_uri_long_seed:
  "fst (parse_uri (''flccat:'' @ replicate 1023 CHR ''a'' @ ''7'') d) = AVERROR ENOENT"
proof -
  let ?X = "replicate 1023 CHR ''a'' @ ''7''"
  have u: "av_strstart (''flccat:'' @ ?X) ''flccat:'' = ?X"
    by (simp add: av_strstart_def)
  have l: "strnlen ?X (FILENAME_FMT_MAX_LENGTH - 1) = 1023"
    by (simp add: strnlen_def FILENAME_FMT_MAX_LENGTH_def)
  have "\<forall>i. 0 < i \<and> i \<le> 1022 \<longrightarrow> \<not> isdigit (?X ! i)"
    by (simp add: nth_append isdigit_def)
  then have c1: "skip_nondigits ?X (1023 - 1) = 0"
    using skip_nondigits_none [of 1022 ?X] by simp
  have c2: "skip_digits ?X 0 = 0" by simp
  have ne: "?X \<noteq> []" by simp
  show ?thesis
    unfolding parse_uri_def Let_def u l c1 c2 using ne by simp
qed

lemma format_overflow_name: "filename_from_idx ''f%d'' 0 = Some ''f0''"
  by code_simp

lemma overflow_values: "dec_value ''0'' \<noteq> dec_value ''4294967296''"
  by (simp add: dec_value_def digit_val_def)

lemma parse_uri_percent:
  "parse_uri ''flccat:a%s1'' blank = (0, seg_data ''a%s%d'' 1 NULL 0 0)
   \<and> filename_from_idx ''a%s%d'' 1 = None"
  by code_simp

subsection \<open>The loops\<close>

lemma flccat_read_loop_read_error:
  assumes "0 <s sz" and "ffurl_read A (uc (current d)) sz w = ((result, bytes), w1)"
    and "result <s 0"
  shows "flccat_read_loop A sz tot buf d w
           = Some (if tot \<noteq> 0 then tot else result, buf, d, w1)"
  using assms by (subst flccat_read_loop.simps) simp

lemma seek_relative_forward_switched:
  assumes "node_size (current d) <s offset + pos"
    and "go_forward A d w = Some (1, d1, w1)"
  shows "seek_relative_forward A offset pos d w
           = seek_relative_forward A offset
               (pos - scast (ucast (node_size (current d)) :: cint)) d1 w1"
  using assms by (subst seek_relative_forward.simps) simp

lemma go_forward_loop_n:
  assumes "go_forward_n A n d w = Some (d1, w1)"
    and "go_forward A d1 w1 = Some (p, d2, w2)" and "\<not> 0 <s p"
  shows "go_forward_loop A d w = Some (p, d2, w2)"
  using assms
proof (induction n arbitrary: d w)
  case 0
  then show ?case by (subst go_forward_loop.simps) simp
next
  case (Suc n)
  from Suc.prems(1) obtain q d' w' where
    g: "go_forward A d w = Some (q, d', w')" and q: "0 <s q"
    and rest: "go_forward_n A n d' w' = Some (d1, w1)"
    by (auto split: option.splits if_splits)
  have "go_forward_loop A d' w' = Some (p, d2, w2)"
    by (rule Suc.IH [OF rest Suc.prems(2) Suc.prems(3)])
  then show ?case using g q by (subst go_forward_loop.simps) simp
qed

text \<open>
  On an empty last segment the loop of \<^verbatim>\<open>flccat_read\<close> never ends: \<^verbatim>\<open>ffurl_read\<close> returns 0,
  \<^verbatim>\<open>go_forward\<close> returns 0, \<^verbatim>\<open>activate_current\<close> succeeds, and the next iteration starts
  from the same state with the same \<^verbatim>\<open>size\<close>.
\<close>

lemma empty_last_step:
  "ffurl_read sim 2 1 (sim_state empty_last_files [(2, ''e1'', 0)] 3)
     = ((0, []), sim_state empty_last_files [(2, ''e1'', 0)] 3)"
  "go_forward sim (seg_data ''e%d'' 1 2 0 1) (sim_state empty_last_files [(2, ''e1'', 0)] 3)
     = Some (0, seg_data ''e%d'' 1 2 0 1, sim_state empty_last_files [(2, ''e1'', 0)] 3)"
  "activate_current sim (seg_data ''e%d'' 1 2 0 1) (sim_state empty_last_files [(2, ''e1'', 0)] 3)
     = (0, sim_state empty_last_files [(2, ''e1'', 0)] 3)"
  "uc (current (seg_data ''e%d'' 1 2 0 1)) = 2"
  by code_simp+

lemma read_loop_empty_last_aux:
  assumes "flccat_read_loop A sz tot buf d w = Some y"
  shows "\<not> (A = sim \<and> sz = 1 \<and> tot = 0 \<and> buf = [] \<and> d = seg_data ''e%d'' 1 2 0 1
            \<and> w = sim_state empty_last_files [(2, ''e1'', 0)] 3)"
proof (rule flccat_read_loop.raw_induct
    [where P = "\<lambda>A sz tot buf d w y. \<not> (A = sim \<and> sz = 1 \<and> tot = 0 \<and> buf = []
            \<and> d = seg_data ''e%d'' 1 2 0 1 \<and> w = sim_state empty_last_files [(2, ''e1'', 0)] 3)",
     OF _ assms])
  fix f :: "sim_world accessor \<Rightarrow> cint \<Rightarrow> cint \<Rightarrow> byte list \<Rightarrow> flccat_data \<Rightarrow> sim_world
            \<Rightarrow> (cint \<times> byte list \<times> flccat_data \<times> sim_world) option"
    and A sz tot buf d w y
  let ?d = "seg_data ''e%d'' 1 2 0 1"
  let ?w = "sim_state empty_last_files [(2, ''e1'', 0)] 3"
  assume ih: "\<And>A sz tot buf d w y. f A sz tot buf d w = Some y \<Longrightarrow>
     \<not> (A = sim \<and> sz = 1 \<and> tot = 0 \<and> buf = [] \<and> d = ?d \<and> w = ?w)"
  assume body: "(if 0 <s sz
      then (let ((result, bytes), w1) = ffurl_read A (uc (current d)) sz w
            in if result <s 0 then Some (if tot \<noteq> 0 then tot else result, buf, d, w1)
               else (let buf1 = buf @ take (unat result) bytes
                     in if result = 0 \<or> result <s sz
                        then (case go_forward A d w1 of
                                None \<Rightarrow> None
                              | Some (p, d2, w2) \<Rightarrow>
                                  if (ucast p :: cint) <s 0 then Some (ucast p, buf1, d2, w2)
                                  else (let (a, w3) = activate_current A d2 w2
                                        in if (ucast a :: cint) <s 0
                                           then Some (ucast a, buf1, d2, w3)
                                           else f A (sz - result) (tot + result)
                                                  buf1 d2 w3))
                        else f A (sz - result) (tot + result) buf1 d w1))
      else Some (tot, buf, d, w)) = Some y"
  show "\<not> (A = sim \<and> sz = 1 \<and> tot = 0 \<and> buf = [] \<and> d = ?d \<and> w = ?w)"
  proof
    assume a: "A = sim \<and> sz = 1 \<and> tot = 0 \<and> buf = [] \<and> d = ?d \<and> w = ?w"
    have "f sim 1 0 [] ?d ?w = Some y"
      using body a by (simp add: empty_last_step word_sless_alt)
    from ih [OF this] show False by simp
  qed
qed

lemma flccat_read_empty_last_never_returns:
  "flccat_read sim 1 (seg_data ''e%d'' 1 2 0 1) (sim_state empty_last_files [(2, ''e1'', 0)] 3)
     = None"
proof (cases "flccat_read_loop sim 1 0 [] (seg_data ''e%d'' 1 2 0 1)
                (sim_state empty_last_files [(2, ''e1'', 0)] 3)")
  case None
  then show ?thesis by (simp add: flccat_read_def)
next
  case (Some y)
  from read_loop_empty_last_aux [OF Some] show ?thesis by blast
qed

lemma flccat_read_rereads:
  "flccat_open sim ''flccat:a0'' 1 blank (sim_files single_file)
     = Some (0, seg_data ''a%d'' 0 1 1 0, sim_state single_file [(1, ''a0'', 0)] 2)
   \<and> flccat_read sim 2 (seg_data ''a%d'' 0 1 1 0) (sim_state single_file [(1, ''a0'', 0)] 2)
     = Some (2, [7, 7], seg_data ''a%d'' 0 1 1 0, sim_state single_file [(1, ''a0'', 1)] 2)
   \<and> flccat_seek sim 0 SEEK_END (seg_data ''a%d'' 0 1 2 0) (sim_state two_files [(1, ''a0'', 0)] 2)
     = Some (3, seg_data ''a%d'' 1 2 1 2, sim_state two_files [(2, ''a1'', 1)] 3)
   \<and> flccat_read sim 1 (seg_data ''a%d'' 1 2 1 2) (sim_state two_files [(2, ''a1'', 1)] 3)
     = Some (1, [3], seg_data ''a%d'' 1 2 1 2, sim_state two_files [(2, ''a1'', 1)] 3)"
  by code_simp

lemma empty_last_reached:
  "flccat_open sim ''flccat:e0'' 1 blank (sim_files empty_last_files)
     = Some (0, seg_data ''e%d'' 0 1 1 0, sim_state empty_last_files [(1, ''e0'', 0)] 2)
   \<and> go_forward sim (seg_data ''e%d'' 0 1 1 0) (sim_state empty_last_files [(1, ''e0'', 0)] 2)
     = Some (1, seg_data ''e%d'' 1 2 0 1, sim_state empty_last_files [(2, ''e1'', 0)] 3)"
  by code_simp

section \<open>The claims\<close>

subsection \<open>The stream reader\<close>

text \<open>
  C1 does not hold of the code. When \<^verbatim>\<open>go_forward\<close> returns 0 (NotSwitched), the loop of
  \<^verbatim>\<open>flccat_read\<close> does not stop: the block that would return is under \<^verbatim>\<open>#if 0\<close> (\<^verbatim>\<open>FIXME
  handle end of file correctly\<close>), so \<^verbatim>\<open>activate_current\<close> rewinds the last segment to its
  start and the loop reads it again. With a single segment holding the byte 7, a read of
  2 bytes returns 2 and the buffer holds the byte twice; the claim has it return 1. After
  \<^verbatim>\<open>SEEK_END\<close> with \<open>pos = 0\<close> on \<open>two_files\<close>, a read of 1 byte returns the last segment's
  first byte again, where the spec has it return 0 bytes. And once the stream has moved
  into the empty last segment of \<open>empty_last_files\<close>, a read of 1 byte never returns.
\<close>

theorem flccat_read_rereads_last_segment:
  "flccat_open sim ''flccat:a0'' 1 blank (sim_files single_file)
     = Some (0, seg_data ''a%d'' 0 1 1 0, sim_state single_file [(1, ''a0'', 0)] 2)
   \<and> flccat_read sim 2 (seg_data ''a%d'' 0 1 1 0) (sim_state single_file [(1, ''a0'', 0)] 2)
     = Some (2, [7, 7], seg_data ''a%d'' 0 1 1 0, sim_state single_file [(1, ''a0'', 1)] 2)
   \<and> flccat_seek sim 0 SEEK_END (seg_data ''a%d'' 0 1 2 0) (sim_state two_files [(1, ''a0'', 0)] 2)
     = Some (3, seg_data ''a%d'' 1 2 1 2, sim_state two_files [(2, ''a1'', 1)] 3)
   \<and> flccat_read sim 1 (seg_data ''a%d'' 1 2 1 2) (sim_state two_files [(2, ''a1'', 1)] 3)
     = Some (1, [3], seg_data ''a%d'' 1 2 1 2, sim_state two_files [(2, ''a1'', 1)] 3)
   \<and> flccat_open sim ''flccat:e0'' 1 blank (sim_files empty_last_files)
     = Some (0, seg_data ''e%d'' 0 1 1 0, sim_state empty_last_files [(1, ''e0'', 0)] 2)
   \<and> go_forward sim (seg_data ''e%d'' 0 1 1 0) (sim_state empty_last_files [(1, ''e0'', 0)] 2)
     = Some (1, seg_data ''e%d'' 1 2 0 1, sim_state empty_last_files [(2, ''e1'', 0)] 3)
   \<and> flccat_read sim 1 (seg_data ''e%d'' 1 2 0 1) (sim_state empty_last_files [(2, ''e1'', 0)] 3)
     = None"
  using flccat_read_rereads empty_last_reached flccat_read_empty_last_never_returns
  by blast

text \<open>
  C2 does not hold of the code for an error of a segment transition. An error of
  \<^verbatim>\<open>ffurl_read\<close> is returned only when \<^verbatim>\<open>total\<close> is 0 (line 221), but an error of
  \<^verbatim>\<open>go_forward\<close> or \<^verbatim>\<open>activate_current\<close> is returned whatever has been delivered (lines 223
  to 235). On \<open>vanishing_files\<close> a read of 6 bytes delivers the four bytes of the first two
  segments and then returns \<^verbatim>\<open>AVERROR(ENOENT)\<close> from the failed open of the third; the claim
  has it return the partial count. For an error of \<^verbatim>\<open>ffurl_read\<close> the code does what the claim
  says (\<open>flccat_read_loop_read_error\<close>).
\<close>

theorem flccat_read_transition_error_drops_count:
  "flccat_open sim ''flccat:a0'' 1 blank (sim_files vanishing_files)
     = Some (0, seg_data ''a%d'' 0 1 2 0, sim_state vanishing_files [(1, ''a0'', 0)] 2)
   \<and> flccat_read sim 6 (seg_data ''a%d'' 0 1 2 0) (sim_state vanishing_files [(1, ''a0'', 0)] 2)
     = Some (AVERROR ENOENT, [1, 2, 3, 4], seg_data ''a%d'' 1 NULL 2 2,
             sim_state vanishing_files [] 3)
   \<and> AVERROR ENOENT <s 0"
  by code_simp

subsection \<open>The cumulative offset across a transition\<close>

text \<open>
  What \<^verbatim>\<open>progress\<close> does to the offsets when it switched, for an accessor whose successful
  seek to the start leaves local offset 0: the new local offset is 0 and \<^verbatim>\<open>idx\<close> has moved
  by the direction. Going forward, \<^verbatim>\<open>segment_start\<close> grows by what \<^verbatim>\<open>ffurl_size\<close> returned
  for the segment left (line 188), whether that was a size or an error code; going
  backward, it shrinks by the size cached for the segment entered.
\<close>

lemma progress_switched_offsets:
  assumes sc: "seek_contract A"
    and pr: "progress A direction d w = Some (1, d', w')"
  shows "local_offset A d' w' = 0 \<and> virtual_offset A d' w' = segment_start d'
       \<and> idx d' = idx d + direction
       \<and> (direction = 1 \<longrightarrow>
            segment_start d' = segment_start d + fst (ffurl_size A (uc (current d)) w))
       \<and> (direction = - 1 \<longrightarrow>
            segment_start d' + node_size (current d') = segment_start d)"
proof -
  from progress_switchedD [OF pr] obtain filename e1 w2 e2 d2 w3 e3 where
    dir: "direction = 1 \<or> direction = - 1"
    and op: "open_filename A filename (uc_flags A (uc (current d)) w2) d w2 = (e2, d2, w3)"
    and d': "d' = (if 0 <s direction
                  then d2\<lparr>idx := idx d2 + direction,
                          segment_start := segment_start d2 + fst (ffurl_size A (uc (current d)) w)\<rparr>
                  else d2\<lparr>idx := idx d2 + direction,
                          segment_start := segment_start d2 - node_size (current d2)\<rparr>)"
    and sk: "ffurl_seek A (uc (current d2)) 0 SEEK_SET w3 = (e3, w')"
    and e3: "\<not> e3 <s 0"
    by blast
  note od = open_filename_data [OF op]
  have cur: "current d' = current d2" using d' by simp
  from sc e3 sk have "fst (ffurl_seek A (uc (current d2)) 0 SEEK_CUR w') = 0"
    unfolding seek_contract_def
    by (metis fst_conv snd_conv)
  then have lo: "local_offset A d' w' = 0"
    by (simp add: local_offset_def cur)
  have ix: "idx d' = idx d + direction" using d' od by simp
  have fw: "direction = 1 \<longrightarrow>
            segment_start d' = segment_start d + fst (ffurl_size A (uc (current d)) w)"
    using d' od by simp
  have bw: "direction = - 1 \<longrightarrow> segment_start d' + node_size (current d') = segment_start d"
    using d' od by simp
  show ?thesis using lo ix fw bw by (simp add: virtual_offset_def)
qed

text \<open>
  C3 does not hold of the code. A stream opened on the single segment of \<open>single_file\<close>
  stands at virtual offset 0. A read of 2 bytes delivers 2 bytes, yet afterwards
  \<^verbatim>\<open>segment_start\<close> plus the local offset is 1, and \<^verbatim>\<open>SEEK_CUR\<close> with \<open>pos = 0\<close> reports 1: at the end
  of the sequence the read loop rewinds the segment (lines 233 to 235, the return being under
  \<^verbatim>\<open>#if 0\<close>), so the sum no longer is the offset the consumer has reached. And the forward
  transition adds the result of \<^verbatim>\<open>ffurl_size\<close> without testing it (line 188), where
  \<^verbatim>\<open>update_current_size\<close> does test it: leaving the segment of \<open>lost_size_files\<close> whose size
  is no longer known (it was 2 when opened), \<^verbatim>\<open>progress\<close> returns 1 with
  \<^verbatim>\<open>segment_start\<close> at \<^verbatim>\<open>AVERROR(ENOSYS)\<close>, -38, instead of 2.
\<close>

theorem virtual_offset_not_kept:
  "flccat_open sim ''flccat:a0'' 1 blank (sim_files single_file)
     = Some (0, seg_data ''a%d'' 0 1 1 0, sim_state single_file [(1, ''a0'', 0)] 2)
   \<and> virtual_offset sim (seg_data ''a%d'' 0 1 1 0) (sim_state single_file [(1, ''a0'', 0)] 2) = 0
   \<and> flccat_read sim 2 (seg_data ''a%d'' 0 1 1 0) (sim_state single_file [(1, ''a0'', 0)] 2)
     = Some (2, [7, 7], seg_data ''a%d'' 0 1 1 0, sim_state single_file [(1, ''a0'', 1)] 2)
   \<and> virtual_offset sim (seg_data ''a%d'' 0 1 1 0) (sim_state single_file [(1, ''a0'', 1)] 2) = 1
   \<and> flccat_seek sim 0 SEEK_CUR (seg_data ''a%d'' 0 1 1 0) (sim_state single_file [(1, ''a0'', 1)] 2)
     = Some (1, seg_data ''a%d'' 0 1 1 0, sim_state single_file [(1, ''a0'', 1)] 2)
   \<and> progress sim 1 (seg_data ''q%d'' 0 1 2 0) (sim_state lost_size_files [(1, ''q0'', 2)] 2)
     = Some (1, seg_data ''q%d'' 1 2 2 (- 38), sim_state lost_size_files [(2, ''q1'', 0)] 3)
   \<and> (0 :: int64) + scast (AVERROR ENOSYS) = - 38"
  by code_simp

subsection \<open>The pattern parser\<close>

text \<open>
  C4 (as amended). Let the seed, after the scheme, be a prefix that is not empty and ends
  in a character that is no digit, then a run of digits, then a suffix without digits,
  with no percent sign in prefix and suffix, the seed and the template shorter than
  \<^verbatim>\<open>FILENAME_FMT_MAX_LENGTH\<close>, and the run's value within the range of \<^verbatim>\<open>int\<close>. Then the
  parser's template is the prefix, \<^verbatim>\<open>%d\<close> and the suffix, its index is the run's value, and
  \<^verbatim>\<open>filename_from_idx\<close> of both is the prefix, the decimal digits of that value and the
  suffix: a digit run of the same value, without the leading zeros.
\<close>

theorem parse_uri_roundtrip:
  assumes uri: "av_strstart uri0 ''flccat:'' = pre @ ds @ suf"
    and pre: "pre \<noteq> []" "\<not> isdigit (last pre)"
    and ds: "ds \<noteq> []" "\<forall>c\<in>set ds. isdigit c"
    and suf: "\<forall>c\<in>set suf. \<not> isdigit c"
    and pct: "CHR ''%'' \<notin> set pre \<union> set suf"
    and len: "length (pre @ ds @ suf) < FILENAME_FMT_MAX_LENGTH"
             "length (pre @ ''%d'' @ suf) < FILENAME_FMT_MAX_LENGTH"
    and val: "dec_value ds < 2 ^ 31"
  shows "parse_uri uri0 d =
           (0, d\<lparr>idx := of_nat (dec_value ds), filename_fmt := pre @ ''%d'' @ suf\<rparr>)
       \<and> filename_from_idx (pre @ ''%d'' @ suf) (of_nat (dec_value ds))
           = Some (pre @ dec_nat (dec_value ds) @ suf)
       \<and> (\<forall>c\<in>set (dec_nat (dec_value ds)). isdigit c)
       \<and> dec_value (dec_nat (dec_value ds)) = dec_value ds"
proof -
  let ?v = "dec_value ds"
  have parse: "parse_uri uri0 d =
           (0, d\<lparr>idx := of_nat ?v, filename_fmt := pre @ ''%d'' @ suf\<rparr>)"
    using parse_uri_template [OF uri pre ds suf len(1), of d] strtol_digits [OF ds suf val]
    by simp
  have si: "sint (of_nat ?v :: cint) = int ?v"
    using val sint_word_of_int_small [of "int ?v"] by simp
  have fm: "format_d (pre @ ''%d'' @ suf) (of_nat ?v) False
              = Some (pre @ dec_nat ?v @ suf)"
    using format_d_template [of pre suf "of_nat ?v"] pct by (simp add: si dec_int_def)
  have "length (dec_nat ?v) \<le> length ds" by (rule length_dec_nat_dec_value [OF ds])
  then have fits: "length (pre @ dec_nat ?v @ suf) \<le> FILENAME_FMT_MAX_LENGTH - 1"
    using len(1) by simp
  have fname: "filename_from_idx (pre @ ''%d'' @ suf) (of_nat ?v)
                = Some (pre @ dec_nat ?v @ suf)"
    unfolding filename_from_idx_def snprintf_def fm using fits by simp
  show ?thesis
    using parse fname dec_nat_digits [of ?v] dec_value_dec_nat [of ?v] by blast
qed

text \<open>The seed \<^verbatim>\<open>flccat:file007.ts\<close>: index 7, and the name for it is \<^verbatim>\<open>file7.ts\<close>.\<close>

theorem parse_uri_roundtrip_witness:
  "parse_uri ''flccat:file007.ts'' blank = (0, seg_data ''file%d.ts'' 7 NULL 0 0)
   \<and> filename_from_idx ''file%d.ts'' 7 = Some ''file7.ts''
   \<and> dec_value ''7'' = dec_value ''007''"
proof -
  have h1: "av_strstart ''flccat:file007.ts'' ''flccat:'' = ''file'' @ ''007'' @ ''.ts''"
    by code_simp
  have h2: "''file'' \<noteq> []" by simp
  have h3: "\<not> isdigit (last ''file'')" by code_simp
  have h4: "''007'' \<noteq> []" by simp
  have h5: "\<forall>c\<in>set ''007''. isdigit c" by code_simp
  have h6: "\<forall>c\<in>set ''.ts''. \<not> isdigit c" by code_simp
  have h7: "CHR ''%'' \<notin> set ''file'' \<union> set ''.ts''" by simp
  have h8: "length (''file'' @ ''007'' @ ''.ts'') < FILENAME_FMT_MAX_LENGTH"
    by (simp add: FILENAME_FMT_MAX_LENGTH_def)
  have h9: "length (''file'' @ ''%d'' @ ''.ts'') < FILENAME_FMT_MAX_LENGTH"
    by (simp add: FILENAME_FMT_MAX_LENGTH_def)
  have v: "dec_value ''007'' = 7" by code_simp
  have h10: "dec_value ''007'' < 2 ^ 31" by (simp add: v)
  have p: "dec_nat 7 = ''7''" by code_simp
  from parse_uri_roundtrip [OF h1 h2 h3 h4 h5 h6 h7 h8 h9 h10, of blank]
  show ?thesis by (simp add: v p blank_def seg_data_def)
qed

text \<open>
  The claim as stated fails outside these limits. The run 4294967296 does not fit an
  \<^verbatim>\<open>int\<close>: the index is 0 and the name \<^verbatim>\<open>f0\<close>. With a percent sign in the prefix the
  template has a second conversion and formatting it is undefined. A seed of 1024
  characters is cut to 1023 by \<^verbatim>\<open>strnlen\<close>, its final digit is not seen and the parser
  returns \<^verbatim>\<open>AVERROR(ENOENT)\<close>.
\<close>

theorem parse_uri_limits_counterexample:
  "parse_uri ''flccat:f4294967296'' blank = (0, seg_data ''f%d'' 0 NULL 0 0)
   \<and> filename_from_idx ''f%d'' 0 = Some ''f0''
   \<and> dec_value ''0'' \<noteq> dec_value ''4294967296''
   \<and> parse_uri ''flccat:a%s1'' blank = (0, seg_data ''a%s%d'' 1 NULL 0 0)
   \<and> filename_from_idx ''a%s%d'' 1 = None
   \<and> fst (parse_uri (''flccat:'' @ replicate 1023 CHR ''a'' @ ''7'') blank) = AVERROR ENOENT"
  using parse_uri_overflow format_overflow_name overflow_values parse_uri_percent
    parse_uri_long_seed [of blank]
  by blast

text \<open>
  Both scanning loops stop at the first character whatever it is (\<^verbatim>\<open>c_iter > uri\<close>), so a
  digit run that starts the path is not covered by the statement above: a path that is
  one digit is refused, and for \<^verbatim>\<open>100\<close> the first digit goes to the prefix, the index is 0
  and the name is \<^verbatim>\<open>10\<close>.
\<close>

lemma parse_uri_digit_run_at_start:
  "fst (parse_uri ''flccat:5'' blank) = AVERROR ENOENT
   \<and> parse_uri ''flccat:100'' blank = (0, seg_data ''1%d'' 0 NULL 0 0)
   \<and> filename_from_idx ''1%d'' 0 = Some ''10''"
  by code_simp

subsection \<open>A segment that vanishes between the probe and the open\<close>

text \<open>
  C5. Every call to \<^verbatim>\<open>progress\<close> in which the candidate segment passes the existence
  probe, the current segment is closed, and the open of the candidate then fails (the
  file vanished in between, or it has no size) returns that open's error: a negative
  value, never 0 (NotSwitched). The result also carries the data and the world as the
  failed open left them. The open is reached only with a current handle that is not
  \<open>NULL\<close>, since its flags are read for it (line 190); with \<open>NULL\<close> the call has no result
  (\<open>progress_null_dereference\<close>).
\<close>

theorem progress_open_failure_propagates:
  assumes dir: "direction = 1 \<or> direction = - 1"
    and fn: "filename_from_idx (filename_fmt d) (idx d + direction) = Some filename"
    and probe: "file_exist_filename A filename w"
    and cl: "close_current A d (snd (ffurl_size A (uc (current d)) w)) = (e1, w2)"
    and clok: "\<not> e1 <s 0"
    and nn: "uc (current d) \<noteq> NULL"
    and op: "open_filename A filename (uc_flags A (uc (current d)) w2) d w2 = (e2, d2, w3)"
    and opf: "e2 <s 0"
  shows "progress A direction d w = Some (scast e2, d2, w3) \<and> (scast e2 :: int64) <s 0
         \<and> (scast e2 :: int64) \<noteq> 0"
proof -
  have "progress A direction d w = Some (scast e2, d2, w3)"
    using dir fn probe cl clok nn op opf
    by (auto simp: progress_def scast_neg_iff split: prod.splits)
  then show ?thesis
    using opf by (simp add: scast_neg_iff scast_neg_nonzero)
qed

text \<open>
  The third segment of \<open>vanishing_files\<close> is listed but cannot be opened: going forward
  from the second returns \<^verbatim>\<open>AVERROR(ENOENT)\<close>.
\<close>

theorem progress_open_failure_propagates_witness:
  "progress sim 1 (seg_data ''a%d'' 1 2 2 2) (sim_state vanishing_files [(2, ''a1'', 2)] 3)
     = Some (scast (AVERROR ENOENT), seg_data ''a%d'' 1 NULL 2 2, sim_state vanishing_files [] 3)
   \<and> (scast (AVERROR ENOENT) :: int64) <s 0 \<and> (scast (AVERROR ENOENT) :: int64) \<noteq> 0"
proof -
  let ?d = "seg_data ''a%d'' 1 2 2 2"
  let ?w = "sim_state vanishing_files [(2, ''a1'', 2)] 3"
  let ?w2 = "sim_state vanishing_files [] 3"
  have h1: "(1::cint) = 1 \<or> (1::cint) = - 1" by simp
  have h2: "filename_from_idx (filename_fmt ?d) (idx ?d + 1) = Some ''a2''" by code_simp
  have h3: "file_exist_filename sim ''a2'' ?w" by code_simp
  have h4: "close_current sim ?d (snd (ffurl_size sim (uc (current ?d)) ?w)) = (0, ?w2)"
    by code_simp
  have h5: "\<not> (0::cint) <s 0" by simp
  have hn: "uc (current ?d) \<noteq> NULL" by (simp add: seg_data_def NULL_def)
  have h6: "open_filename sim ''a2'' (uc_flags sim (uc (current ?d)) ?w2) ?d ?w2
              = (AVERROR ENOENT, seg_data ''a%d'' 1 NULL 2 2, ?w2)"
    by code_simp
  have h7: "AVERROR ENOENT <s 0" by simp
  show ?thesis by (rule progress_open_failure_propagates [OF h1 h2 h3 h4 h5 hn h6 h7])
qed

subsection \<open>The seek translator\<close>

text \<open>
  C6. \<^verbatim>\<open>flccat_seek\<close> with \<^verbatim>\<open>SEEK_END\<close> calls \<^verbatim>\<open>go_forward\<close> again and again while it switches.
  When, after \<open>n\<close> switches, a call returns \<open>p\<close> that is not positive: a negative \<open>p\<close> (an
  error) is returned at once; for \<open>p = 0\<close> (NotSwitched) that last call has changed nothing,
  the now-current segment is put back to its start with \<^verbatim>\<open>ffurl_seek(uc, 0, SEEK_SET)\<close>, whose
  error is returned if it fails, and the result is that of \<^verbatim>\<open>seek_relative\<close> for
  \<^verbatim>\<open>data->current.size + pos\<close>, called where that seek left the segment: at local offset 0,
  for an accessor whose successful seek to the start leaves local offset 0.
\<close>

theorem flccat_seek_end_drains_forward:
  assumes fw: "go_forward_n A n d w = Some (d1, w1)"
    and last: "go_forward A d1 w1 = Some (p, d2, w2)" and np: "\<not> 0 <s p"
  shows "flccat_seek A pos SEEK_END d w =
           (if p <s 0 then Some (p, d2, w2)
            else if fst (ffurl_seek A (uc (current d2)) 0 SEEK_SET w2) <s 0
            then Some (fst (ffurl_seek A (uc (current d2)) 0 SEEK_SET w2), d2,
                       snd (ffurl_seek A (uc (current d2)) 0 SEEK_SET w2))
            else seek_relative A (node_size (current d2) + pos) d2
                   (snd (ffurl_seek A (uc (current d2)) 0 SEEK_SET w2)))
       \<and> (p = 0 \<longrightarrow> d2 = d1 \<and> w2 = w1)
       \<and> (seek_contract A \<and> \<not> fst (ffurl_seek A (uc (current d2)) 0 SEEK_SET w2) <s 0 \<longrightarrow>
            local_offset A d2 (snd (ffurl_seek A (uc (current d2)) 0 SEEK_SET w2)) = 0)"
proof (intro conjI impI)
  show "flccat_seek A pos SEEK_END d w =
           (if p <s 0 then Some (p, d2, w2)
            else if fst (ffurl_seek A (uc (current d2)) 0 SEEK_SET w2) <s 0
            then Some (fst (ffurl_seek A (uc (current d2)) 0 SEEK_SET w2), d2,
                       snd (ffurl_seek A (uc (current d2)) 0 SEEK_SET w2))
            else seek_relative A (node_size (current d2) + pos) d2
                   (snd (ffurl_seek A (uc (current d2)) 0 SEEK_SET w2)))"
    using go_forward_loop_n [OF fw last np]
    by (simp add: flccat_seek_def activate_current_def split: prod.splits)
next
  assume "p = 0"
  then have "progress A 1 d1 w1 = Some (0, d2, w2)"
    using last by (simp add: go_forward_def)
  then show "d2 = d1" and "w2 = w1"
    by (simp_all add: progress_not_switched)
next
  assume "seek_contract A \<and> \<not> fst (ffurl_seek A (uc (current d2)) 0 SEEK_SET w2) <s 0"
  then show "local_offset A d2 (snd (ffurl_seek A (uc (current d2)) 0 SEEK_SET w2)) = 0"
    by (simp add: seek_contract_def local_offset_def)
qed

text \<open>
  On \<open>last_three_files\<close> (two bytes, then three). From the first segment at local offset 1,
  one switch reaches the last segment, which starts at virtual offset 2, and \<^verbatim>\<open>SEEK_END\<close>
  with \<open>pos = 0\<close> returns 5. From the last segment at local offset 2, no switch happens,
  the segment is put back from 2 to its start, and \<^verbatim>\<open>SEEK_END\<close> with \<open>pos = - 2\<close> is
  \<^verbatim>\<open>seek_relative\<close> of 1 from there: it returns 3, where from local offset 2 it would return
  5. On \<open>vanishing_files\<close> the call after the first switch fails, and its error is the
  result.
\<close>

theorem flccat_seek_end_drains_forward_witness:
  "flccat_seek sim 0 SEEK_END (seg_data ''a%d'' 0 1 2 0)
       (sim_state last_three_files [(1, ''a0'', 1)] 2)
     = Some (5, seg_data ''a%d'' 1 2 3 2, sim_state last_three_files [(2, ''a1'', 3)] 3)
   \<and> flccat_seek sim (- 2) SEEK_END (seg_data ''a%d'' 1 2 3 2)
       (sim_state last_three_files [(2, ''a1'', 2)] 3)
     = Some (3, seg_data ''a%d'' 1 2 3 2, sim_state last_three_files [(2, ''a1'', 1)] 3)
   \<and> snd (ffurl_seek sim 2 0 SEEK_SET (sim_state last_three_files [(2, ''a1'', 2)] 3))
     = sim_state last_three_files [(2, ''a1'', 0)] 3
   \<and> local_offset sim (seg_data ''a%d'' 1 2 3 2) (sim_state last_three_files [(2, ''a1'', 2)] 3) = 2
   \<and> local_offset sim (seg_data ''a%d'' 1 2 3 2) (sim_state last_three_files [(2, ''a1'', 0)] 3) = 0
   \<and> seek_relative sim (3 + (- 2)) (seg_data ''a%d'' 1 2 3 2)
       (sim_state last_three_files [(2, ''a1'', 2)] 3)
     = Some (5, seg_data ''a%d'' 1 2 3 2, sim_state last_three_files [(2, ''a1'', 3)] 3)
   \<and> flccat_seek sim 0 SEEK_END (seg_data ''a%d'' 0 1 2 0)
       (sim_state vanishing_files [(1, ''a0'', 0)] 2)
     = Some (scast (AVERROR ENOENT), seg_data ''a%d'' 1 NULL 2 2, sim_state vanishing_files [] 3)"
proof -
  let ?d0 = "seg_data ''a%d'' 0 1 2 0"
  let ?w0 = "sim_state last_three_files [(1, ''a0'', 1)] 2"
  let ?d1 = "seg_data ''a%d'' 1 2 3 2"
  let ?w1 = "sim_state last_three_files [(2, ''a1'', 0)] 3"
  let ?v = "sim_state last_three_files [(2, ''a1'', 2)] 3"
  have z: "\<not> (0::int64) <s 0" by simp
  have a1: "go_forward_n sim (Suc 0) ?d0 ?w0 = Some (?d1, ?w1)" by code_simp
  have a2: "go_forward sim ?d1 ?w1 = Some (0, ?d1, ?w1)" by code_simp
  have a3: "ffurl_seek sim (uc (current ?d1)) 0 SEEK_SET ?w1 = (0, ?w1)" by code_simp
  have a4: "seek_relative sim (node_size (current ?d1) + 0) ?d1 ?w1
              = Some (5, ?d1, sim_state last_three_files [(2, ''a1'', 3)] 3)"
    by code_simp
  have one: "flccat_seek sim 0 SEEK_END ?d0 ?w0
               = Some (5, ?d1, sim_state last_three_files [(2, ''a1'', 3)] 3)"
    using flccat_seek_end_drains_forward [OF a1 a2 z, of 0] a3 a4 by simp
  have b1: "go_forward_n sim 0 ?d1 ?v = Some (?d1, ?v)" by simp
  have b2: "go_forward sim ?d1 ?v = Some (0, ?d1, ?v)" by code_simp
  have b3: "ffurl_seek sim (uc (current ?d1)) 0 SEEK_SET ?v = (0, ?w1)" by code_simp
  have b4: "seek_relative sim (node_size (current ?d1) + (- 2)) ?d1 ?w1
              = Some (3, ?d1, sim_state last_three_files [(2, ''a1'', 1)] 3)"
    by code_simp
  have two: "flccat_seek sim (- 2) SEEK_END ?d1 ?v
               = Some (3, ?d1, sim_state last_three_files [(2, ''a1'', 1)] 3)"
    using flccat_seek_end_drains_forward [OF b1 b2 z, of "- 2"] b3 b4 by simp
  have b5: "snd (ffurl_seek sim 2 0 SEEK_SET ?v) = ?w1" by code_simp
  have b6: "local_offset sim ?d1 ?v = 2" by code_simp
  have b7: "local_offset sim ?d1 ?w1 = 0"
    using flccat_seek_end_drains_forward [OF b1 b2 z, of "- 2"] sim_seek_contract b3 by simp
  have b8: "seek_relative sim (3 + (- 2)) ?d1 ?v
              = Some (5, ?d1, sim_state last_three_files [(2, ''a1'', 3)] 3)"
    by code_simp
  let ?e0 = "seg_data ''a%d'' 0 1 2 0"
  let ?x0 = "sim_state vanishing_files [(1, ''a0'', 0)] 2"
  let ?e1 = "seg_data ''a%d'' 1 2 2 2"
  let ?x1 = "sim_state vanishing_files [(2, ''a1'', 0)] 3"
  let ?e2 = "seg_data ''a%d'' 1 NULL 2 2"
  let ?x2 = "sim_state vanishing_files [] 3"
  have c1: "go_forward_n sim (Suc 0) ?e0 ?x0 = Some (?e1, ?x1)" by code_simp
  have c2: "go_forward sim ?e1 ?x1 = Some (scast (AVERROR ENOENT), ?e2, ?x2)" by code_simp
  have c3: "\<not> 0 <s (scast (AVERROR ENOENT) :: int64)" by code_simp
  have c4: "(scast (AVERROR ENOENT) :: int64) <s 0" by code_simp
  have three: "flccat_seek sim 0 SEEK_END ?e0 ?x0 = Some (scast (AVERROR ENOENT), ?e2, ?x2)"
    using flccat_seek_end_drains_forward [OF c1 c2 c3, of 0] c4 by simp
  from one two b5 b6 b7 b8 three show ?thesis by blast
qed

text \<open>
  C7 does not hold of the code. The forward loop keeps the size of the segment it is
  about to skip in \<^verbatim>\<open>int size\<close>, so a size of \<open>2 ^ 31\<close> becomes \<open>- 2 ^ 31\<close> and \<^verbatim>\<open>pos -= size\<close>
  adds \<open>2 ^ 31\<close> where the claim subtracts it. On \<open>big_files\<close>, a relative seek by
  \<open>2 ^ 31 + 5\<close> from the start should land 5 bytes into the second segment, at virtual
  offset 2147483653; the remaining \<^verbatim>\<open>pos\<close> is 4294967301 instead of 5, and the seek ends
  clamped to the last byte of the second segment, at 2147483657. Every iteration that
  switched subtracts the size cut to 32 bits (\<open>seek_relative_forward_switched\<close>), which is
  the size itself only within the range of \<^verbatim>\<open>int\<close> (\<open>scast_ucast_int_range\<close>).
\<close>

theorem seek_relative_truncates_skipped_size:
  "flccat_open sim ''flccat:s0'' 1 blank (sim_files big_files)
     = Some (0, seg_data ''s%d'' 0 1 2147483648 0, sim_state big_files [(1, ''s0'', 0)] 2)
   \<and> (2147483653 :: int64) - scast (ucast (2147483648 :: int64) :: cint) = 4294967301
   \<and> seek_relative sim 2147483653 (seg_data ''s%d'' 0 1 2147483648 0)
        (sim_state big_files [(1, ''s0'', 0)] 2)
     = Some (2147483657, seg_data ''s%d'' 1 2 10 2147483648, sim_state big_files [(2, ''s1'', 9)] 3)"
  by code_simp

subsection \<open>Failures of \<^verbatim>\<open>flccat_open\<close>\<close>

text \<open>
  The three ways \<^verbatim>\<open>flccat_open\<close> fails: a path without a digit gives \<^verbatim>\<open>AVERROR(ENOENT)\<close> and
  leaves the world untouched; a segment that \<^verbatim>\<open>open_filename\<close> cannot open, or whose size it
  cannot determine (\<open>open_filename_open_fails\<close>, \<open>open_filename_size_fails\<close>), gives that
  error after \<^verbatim>\<open>flccat_close\<close>.
\<close>

lemma parse_uri_no_digits:
  assumes "\<forall>c\<in>set (av_strstart uri0 ''flccat:''). \<not> isdigit c"
  shows "fst (parse_uri uri0 d) = AVERROR ENOENT"
proof (cases "av_strstart uri0 ''flccat:'' = []")
  case True
  then show ?thesis by (simp add: parse_uri_def)
next
  case False
  let ?u = "av_strstart uri0 ''flccat:''"
  let ?n = "strnlen ?u (FILENAME_FMT_MAX_LENGTH - 1)"
  have "?n - 1 < length ?u" using False by (cases ?u) (simp_all add: strnlen_def)
  then have "\<forall>i. 0 < i \<and> i \<le> ?n - 1 \<longrightarrow> ?u ! i \<in> set ?u"
    by auto
  then have "\<forall>i. 0 < i \<and> i \<le> ?n - 1 \<longrightarrow> \<not> isdigit (?u ! i)"
    using assms by blast
  then have c1: "skip_nondigits ?u (?n - 1) = 0" by (rule skip_nondigits_none)
  have c2: "skip_digits ?u 0 = 0" by simp
  show ?thesis
    unfolding parse_uri_def Let_def c1 c2 using False
    by (simp only: if_False fst_conv refl if_True simp_thms)
qed

lemma flccat_open_no_digit_run:
  assumes "\<forall>c\<in>set (av_strstart uri ''flccat:''). \<not> isdigit c"
  shows "\<exists>d'. flccat_open A uri flags d w = Some (AVERROR ENOENT, d', w)"
proof -
  let ?d0 = "d\<lparr>current := \<lparr>uc = NULL, node_size = 0\<rparr>, idx := 0,
            filename_fmt := [], segment_start := 0\<rparr>"
  obtain perr d1 where p: "parse_uri uri ?d0 = (perr, d1)" by (metis prod.exhaust)
  then have "perr = AVERROR ENOENT" using parse_uri_no_digits [OF assms, of ?d0] by simp
  then show ?thesis using p by (simp add: flccat_open_def)
qed

lemma flccat_open_segment_fails:
  assumes "parse_uri uri (d\<lparr>current := \<lparr>uc = NULL, node_size = 0\<rparr>, idx := 0,
            filename_fmt := [], segment_start := 0\<rparr>) = (perr, d1)"
    and "\<not> perr <s 0"
    and "filename_from_idx (filename_fmt d1) (idx d1) = Some filename"
    and "open_filename A filename flags d1 w = (e, d2, w2)"
    and "e <s 0"
  shows "flccat_open A uri flags d w = Some (e, d2, snd (flccat_close A d2 w2))"
  using assms by (simp add: flccat_open_def open_idx_def split: prod.splits)

text \<open>
  C8. Every call of \<^verbatim>\<open>flccat_open\<close> that returns an error (for a seed without a digit run,
  for a seed segment that cannot be opened, for a segment whose size cannot be
  determined) leaves no handle open that was not open before the call: the segment it may
  have opened is closed again and nothing stays allocated. On the size path the handle is
  handed to \<^verbatim>\<open>ffurl_close\<close> twice, by \<^verbatim>\<open>open_filename\<close> and again by \<^verbatim>\<open>flccat_close\<close>; the
  statement counts what is open afterwards.
\<close>

theorem flccat_open_failure_releases:
  assumes hc: "handle_contract A live"
    and op: "flccat_open A uri flags d w = Some (err, d', w')"
    and fail: "err <s 0"
  shows "live w' \<subseteq> live w"
proof -
  define d0 where "d0 = d\<lparr>current := \<lparr>uc = NULL, node_size = 0\<rparr>, idx := 0,
                  filename_fmt := [], segment_start := 0\<rparr>"
  obtain perr d1 where pu: "parse_uri uri d0 = (perr, d1)"
    by (metis prod.exhaust)
  show ?thesis
  proof (cases "perr <s 0")
    case True
    then have "w' = w" using op pu by (simp add: flccat_open_def d0_def [symmetric])
    then show ?thesis by simp
  next
    case False
    then obtain filename where fn: "filename_from_idx (filename_fmt d1) (idx d1) = Some filename"
      using op pu by (auto simp: flccat_open_def d0_def [symmetric] open_idx_def split: option.splits)
    obtain e2 d2 w2 where of: "open_filename A filename flags d1 w = (e2, d2, w2)"
      by (metis prod.exhaust)
    obtain c w3 where cl: "ffurl_close A (uc (current d2)) w2 = (c, w3)"
      by (metis prod.exhaust)
    have res: "Some (err, d', w') = (if e2 <s 0 then Some (e2, d2, w3) else Some (e2, d2, w2))"
      using op pu False fn of cl
      by (auto simp: flccat_open_def d0_def [symmetric] open_idx_def flccat_close_def
               split: if_splits)
    then have e2: "e2 <s 0" using fail by (auto split: if_splits)
    then have "w' = w3" using res by simp
    moreover have "live w2 \<subseteq> live w" by (rule open_filename_fail_live [OF hc of e2])
    moreover have "live w3 = live w2 - {uc (current d2)}" by (rule hc_close [OF hc cl])
    ultimately show ?thesis by auto
  qed
qed

text \<open>
  The seed of \<open>unsized_files\<close> opens but has no size: \<^verbatim>\<open>flccat_open\<close> returns
  \<^verbatim>\<open>AVERROR(ENOSYS)\<close> and no handle is open.
\<close>

theorem flccat_open_failure_releases_witness:
  "flccat_open sim ''flccat:u1'' 1 blank (sim_files unsized_files)
     = Some (AVERROR ENOSYS, seg_data ''u%d'' 1 1 0 0, sim_state unsized_files [] 2)
   \<and> AVERROR ENOSYS <s 0
   \<and> sim_live (sim_state unsized_files [] 2) \<subseteq> sim_live (sim_files unsized_files)"
proof -
  have o: "flccat_open sim ''flccat:u1'' 1 blank (sim_files unsized_files)
             = Some (AVERROR ENOSYS, seg_data ''u%d'' 1 1 0 0, sim_state unsized_files [] 2)"
    by code_simp
  have f: "AVERROR ENOSYS <s 0" by simp
  from flccat_open_failure_releases [OF sim_handle_contract o f] o f
  show ?thesis by blast
qed

text \<open>
  The second close on the size path, on that seed: after \<^verbatim>\<open>open_filename\<close> has closed
  handle 1 it is no longer open, and \<^verbatim>\<open>flccat_close\<close> hands the same pointer to
  \<^verbatim>\<open>ffurl_close\<close> again, which the simulated accessor answers with an error.
\<close>

lemma flccat_open_size_failure_closes_twice:
  "open_filename sim ''u1'' 1 (seg_data ''u%d'' 1 NULL 0 0) (sim_files unsized_files)
     = (AVERROR ENOSYS, seg_data ''u%d'' 1 1 0 0, sim_state unsized_files [] 2)
   \<and> uc (current (seg_data ''u%d'' 1 1 0 0)) \<notin> sim_live (sim_state unsized_files [] 2)
   \<and> flccat_close sim (seg_data ''u%d'' 1 1 0 0) (sim_state unsized_files [] 2)
     = (- 1, sim_state unsized_files [] 2)"
  by code_simp

subsection \<open>The anchor of the virtual offsets\<close>

text \<open>
  C9 (as amended). Virtual offsets are anchored at the seed segment: \<^verbatim>\<open>flccat_open\<close> leaves
  \<^verbatim>\<open>segment_start\<close> at 0. Every backward transition that switched lowers \<^verbatim>\<open>segment_start\<close>
  by the size of the segment switched into, as \<^verbatim>\<open>ffurl_size\<close> reported it when the segment
  was opened, which is not negative. So from the seed or below the new \<^verbatim>\<open>segment_start\<close>
  is negative when that segment is not empty (and the 64-bit subtraction does not
  overflow), and is unchanged when it is empty. A subsequent seek, \<^verbatim>\<open>SEEK_CUR\<close> or
  \<^verbatim>\<open>SEEK_SET\<close>, that stays within the current segment returns \<^verbatim>\<open>segment_start\<close> plus the
  local offset it reached: with a negative \<^verbatim>\<open>segment_start\<close> that absolute offset is negative
  as long as the local offset is below the distance to the seed.
\<close>

theorem backward_segment_start:
  "(flccat_open A uri flags d0 w0 = Some (e, ds, ws) \<longrightarrow> segment_start ds = 0)
   \<and> (progress A (- 1) d w = Some (1, d', w') \<longrightarrow>
        segment_start d' = segment_start d - node_size (current d')
      \<and> node_size (current d')
          = opened_size A (the (filename_from_idx (filename_fmt d) (idx d + (- 1))))
              (uc_flags A (uc (current d))
                 (snd (close_current A d (snd (ffurl_size A (uc (current d)) w)))))
              (snd (close_current A d (snd (ffurl_size A (uc (current d)) w))))
      \<and> \<not> node_size (current d') <s 0
      \<and> (node_size (current d') = 0 \<longrightarrow> segment_start d' = segment_start d)
      \<and> (\<not> 0 <s segment_start d \<and> node_size (current d') \<noteq> 0
           \<and> - (2 ^ 63) \<le> sint (segment_start d) - sint (node_size (current d'))
          \<longrightarrow> segment_start d' <s 0))
   \<and> (ffurl_seek A (uc (current dc)) 0 SEEK_CUR wc = (offset, wc0)
        \<and> \<not> offset + pos <s 0 \<and> \<not> node_size (current dc) <s offset + pos
        \<and> ffurl_seek A (uc (current dc)) (offset + pos) SEEK_SET wc0 = (o1, wc1)
        \<and> \<not> o1 <s 0 \<longrightarrow>
        flccat_seek A pos SEEK_CUR dc wc = Some (segment_start dc + o1, dc, wc1)
      \<and> (segment_start dc <s 0 \<and> sint (segment_start dc) + sint o1 < 0
          \<longrightarrow> segment_start dc + o1 <s 0))
   \<and> (ffurl_seek A (uc (current dt)) 0 SEEK_CUR wt = (here, wt0)
        \<and> ffurl_seek A (uc (current dt)) 0 SEEK_CUR wt0 = (offset', wt1)
        \<and> \<not> offset' + (target - (segment_start dt + here)) <s 0
        \<and> \<not> node_size (current dt) <s offset' + (target - (segment_start dt + here))
        \<and> ffurl_seek A (uc (current dt)) (offset' + (target - (segment_start dt + here)))
              SEEK_SET wt1 = (o2, wt2)
        \<and> \<not> o2 <s 0 \<longrightarrow>
        flccat_seek A target SEEK_SET dt wt = Some (segment_start dt + o2, dt, wt2)
      \<and> (segment_start dt <s 0 \<and> sint (segment_start dt) + sint o2 < 0
          \<longrightarrow> segment_start dt + o2 <s 0))"
proof (intro conjI impI)
  assume o: "flccat_open A uri flags d0 w0 = Some (e, ds, ws)"
  have p: "segment_start (snd (parse_uri uri x)) = segment_start x" for x
    by (simp add: parse_uri_def Let_def)
  show "segment_start ds = 0"
    using o p [of "d0\<lparr>current := \<lparr>uc = NULL, node_size = 0\<rparr>, idx := 0,
                  filename_fmt := [], segment_start := 0\<rparr>"]
    by (auto simp: flccat_open_def open_idx_def Let_def
             split: prod.splits if_splits option.splits dest: open_filename_data)
next
  assume pr: "progress A (- 1) d w = Some (1, d', w')"
  from progress_switchedD [OF pr] obtain filename e1 w2 e2 d2 w3 where
    fn: "filename_from_idx (filename_fmt d) (idx d + (- 1)) = Some filename"
    and cl: "close_current A d (snd (ffurl_size A (uc (current d)) w)) = (e1, w2)"
    and op: "open_filename A filename (uc_flags A (uc (current d)) w2) d w2 = (e2, d2, w3)"
    and e2: "\<not> e2 <s 0"
    and d': "d' = d2\<lparr>idx := idx d2 + (- 1),
                     segment_start := segment_start d2 - node_size (current d2)\<rparr>"
    by auto
  note od = open_filename_data [OF op]
  show eq: "segment_start d' = segment_start d - node_size (current d')"
    using d' od by simp
  show "node_size (current d')
          = opened_size A (the (filename_from_idx (filename_fmt d) (idx d + (- 1))))
              (uc_flags A (uc (current d))
                 (snd (close_current A d (snd (ffurl_size A (uc (current d)) w)))))
              (snd (close_current A d (snd (ffurl_size A (uc (current d)) w))))"
    using open_filename_ok_opened_size [OF op e2] d' fn cl by simp
  show nn: "\<not> node_size (current d') <s 0"
    using open_filename_ok_size [OF op e2] d' by simp
  show "segment_start d' = segment_start d" if "node_size (current d') = 0"
    using eq that by simp
  show "segment_start d' <s 0"
    if "\<not> 0 <s segment_start d \<and> node_size (current d') \<noteq> 0
        \<and> - (2 ^ 63) \<le> sint (segment_start d) - sint (node_size (current d'))"
  proof -
    have a: "sint (segment_start d) \<le> 0" using that by (simp add: word_sless_alt)
    have "sint (node_size (current d')) \<noteq> 0"
      using that by (metis sint_0 signed_word_eqI)
    then have b: "0 < sint (node_size (current d'))"
      using nn by (simp add: word_sless_alt)
    have "sint (segment_start d - node_size (current d'))
          = sint (segment_start d) - sint (node_size (current d'))"
      using that a b by (intro sint_diff_no_overflow) auto
    then show ?thesis using a b eq by (simp add: word_sless_alt)
  qed
next
  assume h: "ffurl_seek A (uc (current dc)) 0 SEEK_CUR wc = (offset, wc0)
        \<and> \<not> offset + pos <s 0 \<and> \<not> node_size (current dc) <s offset + pos
        \<and> ffurl_seek A (uc (current dc)) (offset + pos) SEEK_SET wc0 = (o1, wc1)
        \<and> \<not> o1 <s 0"
  have "seek_relative A pos dc wc = Some (segment_start dc + o1, dc, wc1)"
    using h by (intro seek_relative_within_segment [where offset = offset and ?w0.0 = wc0]) simp_all
  then show "flccat_seek A pos SEEK_CUR dc wc = Some (segment_start dc + o1, dc, wc1)"
    by (simp add: flccat_seek_def SEEK_END_def SEEK_CUR_def)
  show "segment_start dc + o1 <s 0"
    if "segment_start dc <s 0 \<and> sint (segment_start dc) + sint o1 < 0"
    using that h by (intro negative_start_plus_offset) simp_all
next
  assume h: "ffurl_seek A (uc (current dt)) 0 SEEK_CUR wt = (here, wt0)
        \<and> ffurl_seek A (uc (current dt)) 0 SEEK_CUR wt0 = (offset', wt1)
        \<and> \<not> offset' + (target - (segment_start dt + here)) <s 0
        \<and> \<not> node_size (current dt) <s offset' + (target - (segment_start dt + here))
        \<and> ffurl_seek A (uc (current dt)) (offset' + (target - (segment_start dt + here)))
              SEEK_SET wt1 = (o2, wt2)
        \<and> \<not> o2 <s 0"
  have "seek_relative A (target - (segment_start dt + here)) dt wt0
          = Some (segment_start dt + o2, dt, wt2)"
    using h by (intro seek_relative_within_segment [where offset = offset' and ?w0.0 = wt1])
      simp_all
  then show "flccat_seek A target SEEK_SET dt wt = Some (segment_start dt + o2, dt, wt2)"
    using h by (simp add: flccat_seek_def SEEK_END_def SEEK_CUR_def SEEK_SET_def)
  show "segment_start dt + o2 <s 0"
    if "segment_start dt <s 0 \<and> sint (segment_start dt) + sint o2 < 0"
    using that h by (intro negative_start_plus_offset) simp_all
qed

text \<open>
  Opened at the second segment of \<open>back_files\<close>, \<^verbatim>\<open>segment_start\<close> is 0; one step back into
  the first segment, of two bytes where the seed has one, makes it -2. From there
  \<^verbatim>\<open>SEEK_CUR\<close> by 1 returns -1, and \<^verbatim>\<open>SEEK_SET\<close> to -2 then returns -2, which is also the value
  of \<^verbatim>\<open>AVERROR(ENOENT)\<close>.
\<close>

theorem backward_segment_start_witness:
  "flccat_open sim ''flccat:f1'' 1 blank (sim_files back_files)
     = Some (0, seg_data ''f%d'' 1 1 1 0, sim_state back_files [(1, ''f1'', 0)] 2)
   \<and> segment_start (seg_data ''f%d'' 1 1 1 0) = 0
   \<and> progress sim (- 1) (seg_data ''f%d'' 1 1 1 0) (sim_state back_files [(1, ''f1'', 0)] 2)
     = Some (1, seg_data ''f%d'' 0 2 2 (- 2), sim_state back_files [(2, ''f0'', 0)] 3)
   \<and> opened_size sim ''f0'' 1 (sim_state back_files [] 2) = 2
   \<and> node_size (current (seg_data ''f%d'' 0 2 2 (- 2))) = 2
   \<and> segment_start (seg_data ''f%d'' 0 2 2 (- 2)) = 0 - 2
   \<and> segment_start (seg_data ''f%d'' 0 2 2 (- 2)) <s 0
   \<and> flccat_seek sim 1 SEEK_CUR (seg_data ''f%d'' 0 2 2 (- 2))
        (sim_state back_files [(2, ''f0'', 0)] 3)
     = Some (- 1, seg_data ''f%d'' 0 2 2 (- 2), sim_state back_files [(2, ''f0'', 1)] 3)
   \<and> (- 1 :: int64) <s 0
   \<and> flccat_seek sim (- 2) SEEK_SET (seg_data ''f%d'' 0 2 2 (- 2))
        (sim_state back_files [(2, ''f0'', 1)] 3)
     = Some (- 2, seg_data ''f%d'' 0 2 2 (- 2), sim_state back_files [(2, ''f0'', 0)] 3)
   \<and> (- 2 :: int64) <s 0 \<and> (- 2 :: int64) = scast (AVERROR ENOENT)"
proof -
  let ?d = "seg_data ''f%d'' 1 1 1 0"
  let ?w = "sim_state back_files [(1, ''f1'', 0)] 2"
  let ?d' = "seg_data ''f%d'' 0 2 2 (- 2)"
  let ?w' = "sim_state back_files [(2, ''f0'', 0)] 3"
  let ?w1 = "sim_state back_files [(2, ''f0'', 1)] 3"
  have o: "flccat_open sim ''flccat:f1'' 1 blank (sim_files back_files) = Some (0, ?d, ?w)"
    by code_simp
  have pr: "progress sim (- 1) ?d ?w = Some (1, ?d', ?w')" by code_simp
  have fn: "the (filename_from_idx (filename_fmt ?d) (idx ?d + (- 1))) = ''f0''" by code_simp
  have cl: "snd (close_current sim ?d (snd (ffurl_size sim (uc (current ?d)) ?w)))
              = sim_state back_files [] 2"
    by code_simp
  have fl: "uc_flags sim (uc (current ?d)) (sim_state back_files [] 2) = 1" by code_simp
  have os: "opened_size sim ''f0'' 1 (sim_state back_files [] 2) = 2" by code_simp
  have st: "segment_start ?d = 0" "segment_start ?d' = - 2" by (simp_all add: seg_data_def)
  have h: "\<not> 0 <s segment_start ?d \<and> node_size (current ?d') \<noteq> 0
           \<and> - (2 ^ 63) \<le> sint (segment_start ?d) - sint (node_size (current ?d'))"
    by (simp add: seg_data_def)
  have c: "ffurl_seek sim (uc (current ?d')) 0 SEEK_CUR ?w' = (0, ?w')
        \<and> \<not> (0::int64) + 1 <s 0 \<and> \<not> node_size (current ?d') <s 0 + 1
        \<and> ffurl_seek sim (uc (current ?d')) (0 + 1) SEEK_SET ?w' = (1, ?w1)
        \<and> \<not> (1::int64) <s 0"
    by code_simp
  have cn: "segment_start ?d' <s 0 \<and> sint (segment_start ?d') + sint (1::int64) < 0"
    by (simp add: seg_data_def word_sless_alt)
  have t: "ffurl_seek sim (uc (current ?d')) 0 SEEK_CUR ?w1 = (1, ?w1)
        \<and> ffurl_seek sim (uc (current ?d')) 0 SEEK_CUR ?w1 = (1, ?w1)
        \<and> \<not> 1 + (- 2 - (segment_start ?d' + 1)) <s 0
        \<and> \<not> node_size (current ?d') <s 1 + (- 2 - (segment_start ?d' + 1))
        \<and> ffurl_seek sim (uc (current ?d')) (1 + (- 2 - (segment_start ?d' + 1)))
              SEEK_SET ?w1 = (0, ?w')
        \<and> \<not> (0::int64) <s 0"
    by code_simp
  have tn: "segment_start ?d' <s 0 \<and> sint (segment_start ?d') + sint (0::int64) < 0"
    by (simp add: seg_data_def word_sless_alt)
  have en: "(- 2 :: int64) = scast (AVERROR ENOENT)" by code_simp
  from backward_segment_start [where A = sim and uri = "''flccat:f1''" and flags = 1
      and ?d0.0 = blank and ?w0.0 = "sim_files back_files" and e = 0 and ds = ?d and ws = ?w
      and d = ?d and w = ?w and d' = ?d' and w' = ?w'
      and dc = ?d' and wc = ?w' and offset = 0 and ?wc0.0 = ?w' and pos = 1 and ?o1.0 = 1
      and ?wc1.0 = ?w1
      and dt = ?d' and wt = ?w1 and here = 1 and ?wt0.0 = ?w1 and offset' = 1 and ?wt1.0 = ?w1
      and target = "- 2" and ?o2.0 = 0 and ?wt2.0 = ?w']
    o pr h c cn t tn
  have r: "segment_start ?d = 0
         \<and> node_size (current ?d')
             = opened_size sim (the (filename_from_idx (filename_fmt ?d) (idx ?d + (- 1))))
                 (uc_flags sim (uc (current ?d))
                    (snd (close_current sim ?d (snd (ffurl_size sim (uc (current ?d)) ?w)))))
                 (snd (close_current sim ?d (snd (ffurl_size sim (uc (current ?d)) ?w))))
         \<and> segment_start ?d' <s 0
         \<and> flccat_seek sim 1 SEEK_CUR ?d' ?w' = Some (segment_start ?d' + 1, ?d', ?w1)
         \<and> segment_start ?d' + 1 <s 0
         \<and> flccat_seek sim (- 2) SEEK_SET ?d' ?w1 = Some (segment_start ?d' + 0, ?d', ?w')
         \<and> segment_start ?d' + 0 <s 0"
    by blast
  then have ns: "node_size (current ?d') = 2"
    by (simp only: fn cl fl os)
  from r have s1: "flccat_seek sim 1 SEEK_CUR ?d' ?w' = Some (- 1, ?d', ?w1)"
    by (simp add: st)
  from r have s2: "flccat_seek sim (- 2) SEEK_SET ?d' ?w1 = Some (- 2, ?d', ?w')"
    by (simp add: st)
  from r have ng: "segment_start ?d' <s 0" by blast
  have m: "(- 1 :: int64) <s 0" "(- 2 :: int64) <s 0" by (simp_all add: word_sless_alt)
  from o st pr os ns ng s1 s2 m en show ?thesis by (simp add: word_sless_alt)
qed

text \<open>
  The claim as stated fails when the segment switched into is empty: opened at the
  second segment of \<open>empty_back_files\<close>, one step back switches into the empty first
  segment, \<^verbatim>\<open>segment_start\<close> stays 0, which is not negative, and a seek there returns 0. It
  also fails for a seek to the end of a segment below the seed: on \<open>back_files\<close>, with
  \<^verbatim>\<open>segment_start\<close> at -2 after the step back, \<^verbatim>\<open>SEEK_CUR\<close> by 2 returns 0.
\<close>

theorem backward_segment_start_counterexample:
  "flccat_open sim ''flccat:f1'' 1 blank (sim_files empty_back_files)
     = Some (0, seg_data ''f%d'' 1 1 1 0, sim_state empty_back_files [(1, ''f1'', 0)] 2)
   \<and> progress sim (- 1) (seg_data ''f%d'' 1 1 1 0) (sim_state empty_back_files [(1, ''f1'', 0)] 2)
     = Some (1, seg_data ''f%d'' 0 2 0 0, sim_state empty_back_files [(2, ''f0'', 0)] 3)
   \<and> \<not> segment_start (seg_data ''f%d'' 0 2 0 0) <s 0
   \<and> flccat_seek sim 0 SEEK_CUR (seg_data ''f%d'' 0 2 0 0)
        (sim_state empty_back_files [(2, ''f0'', 0)] 3)
     = Some (0, seg_data ''f%d'' 0 2 0 0, sim_state empty_back_files [(2, ''f0'', 0)] 3)
   \<and> progress sim (- 1) (seg_data ''f%d'' 1 1 1 0) (sim_state back_files [(1, ''f1'', 0)] 2)
     = Some (1, seg_data ''f%d'' 0 2 2 (- 2), sim_state back_files [(2, ''f0'', 0)] 3)
   \<and> flccat_seek sim 2 SEEK_CUR (seg_data ''f%d'' 0 2 2 (- 2))
        (sim_state back_files [(2, ''f0'', 0)] 3)
     = Some (0, seg_data ''f%d'' 0 2 2 (- 2), sim_state back_files [(2, ''f0'', 2)] 3)
   \<and> \<not> (0 :: int64) <s 0"
  by code_simp

text \<open>
  A seek that crosses back from the seed returns a negative offset as well: from the seed
  of \<open>back_files\<close>, \<^verbatim>\<open>SEEK_CUR\<close> by -1 enters the first segment and returns -1. And the condition
  on the subtraction is needed: with \<^verbatim>\<open>segment_start\<close> at the least 64-bit value but one, a
  step back into a segment of two bytes wraps it to the greatest.
\<close>

lemma seek_across_seed_negative:
  "flccat_seek sim (- 1) SEEK_CUR (seg_data ''f%d'' 1 1 1 0)
        (sim_state back_files [(1, ''f1'', 0)] 2)
     = Some (- 1, seg_data ''f%d'' 0 2 2 (- 2), sim_state back_files [(2, ''f0'', 1)] 3)
   \<and> progress sim (- 1) (seg_data ''f%d'' 1 1 1 (- 9223372036854775807))
        (sim_state back_files [(1, ''f1'', 0)] 2)
     = Some (1, seg_data ''f%d'' 0 2 2 9223372036854775807,
             sim_state back_files [(2, ''f0'', 0)] 3)"
  by code_simp

subsection \<open>A transition that fails half way\<close>

text \<open>
  C10. \<^verbatim>\<open>progress\<close> is not atomic on error. When closing the current segment succeeds and
  opening the candidate fails, the error is returned with the previous segment closed
  and not reopened: its handle is no longer open, no other handle has been opened, and
  \<^verbatim>\<open>idx\<close> and \<^verbatim>\<open>segment_start\<close> still name the segment that was closed. If the stream's
  handle was the only open one, none is open afterwards. As in C5, the open is reached
  only with a current handle that is not \<open>NULL\<close>.
\<close>

theorem progress_error_not_atomic:
  assumes hc: "handle_contract A live"
    and dir: "direction = 1 \<or> direction = - 1"
    and fn: "filename_from_idx (filename_fmt d) (idx d + direction) = Some filename"
    and probe: "file_exist_filename A filename w"
    and cl: "close_current A d (snd (ffurl_size A (uc (current d)) w)) = (e1, w2)"
    and clok: "\<not> e1 <s 0"
    and nn: "uc (current d) \<noteq> NULL"
    and op: "open_filename A filename (uc_flags A (uc (current d)) w2) d w2 = (e2, d2, w3)"
    and opf: "e2 <s 0"
  shows "progress A direction d w = Some (scast e2, d2, w3) \<and> (scast e2 :: int64) <s 0
         \<and> live w3 \<subseteq> live w - {uc (current d)}
         \<and> (live w = {uc (current d)} \<longrightarrow> live w3 = {} \<and> live w3 \<noteq> live w)
         \<and> idx d2 = idx d \<and> segment_start d2 = segment_start d"
proof -
  have p: "progress A direction d w = Some (scast e2, d2, w3)"
    using dir fn probe cl clok nn op opf
    by (auto simp: progress_def scast_neg_iff split: prod.splits)
  obtain sf w1 where sz: "ffurl_size A (uc (current d)) w = (sf, w1)"
    by (metis prod.exhaust)
  have l1: "live w1 = live w" by (rule hc_size [OF hc sz])
  have "ffurl_close A (uc (current d)) w1 = (e1, w2)"
    using cl sz by (simp add: close_current_def)
  then have l2: "live w2 = live w1 - {uc (current d)}" by (rule hc_close [OF hc])
  have l3: "live w3 \<subseteq> live w2" by (rule open_filename_fail_live [OF hc op opf])
  have sub: "live w3 \<subseteq> live w - {uc (current d)}" using l1 l2 l3 by simp
  then have one: "live w = {uc (current d)} \<longrightarrow> live w3 = {} \<and> live w3 \<noteq> live w" by auto
  show ?thesis
    using p opf sub one open_filename_data [OF op] by (simp add: scast_neg_iff)
qed

text \<open>
  Going backward from segment 5 of \<open>ring_files\<close>, whose segment 4 is gone when it is
  opened: the handle of segment 5 is closed and nothing is open.
\<close>

theorem progress_error_not_atomic_witness:
  "progress sim (- 1) (seg_data ''b%d'' 5 1 1 0) (sim_state ring_files [(1, ''b5'', 0)] 2)
     = Some (scast (AVERROR ENOENT), seg_data ''b%d'' 5 NULL 1 0, sim_state ring_files [] 2)
   \<and> sim_live (sim_state ring_files [(1, ''b5'', 0)] 2) = {uc (current (seg_data ''b%d'' 5 1 1 0))}
   \<and> sim_live (sim_state ring_files [] 2) = {}
   \<and> idx (seg_data ''b%d'' 5 NULL 1 0) = idx (seg_data ''b%d'' 5 1 1 0)
   \<and> segment_start (seg_data ''b%d'' 5 NULL 1 0) = segment_start (seg_data ''b%d'' 5 1 1 0)"
proof -
  let ?d = "seg_data ''b%d'' 5 1 1 0"
  let ?w = "sim_state ring_files [(1, ''b5'', 0)] 2"
  let ?w2 = "sim_state ring_files [] 2"
  have h1: "(- 1::cint) = 1 \<or> (- 1::cint) = - 1" by simp
  have h2: "filename_from_idx (filename_fmt ?d) (idx ?d + (- 1)) = Some ''b4''" by code_simp
  have h3: "file_exist_filename sim ''b4'' ?w" by code_simp
  have h4: "close_current sim ?d (snd (ffurl_size sim (uc (current ?d)) ?w)) = (0, ?w2)"
    by code_simp
  have h5: "\<not> (0::cint) <s 0" by simp
  have hn: "uc (current ?d) \<noteq> NULL" by (simp add: seg_data_def NULL_def)
  have h6: "open_filename sim ''b4'' (uc_flags sim (uc (current ?d)) ?w2) ?d ?w2
              = (AVERROR ENOENT, seg_data ''b%d'' 5 NULL 1 0, ?w2)"
    by code_simp
  have h7: "AVERROR ENOENT <s 0" by simp
  have only: "sim_live ?w = {uc (current ?d)}"
    by (simp add: sim_live_def sim_state_def seg_data_def)
  from progress_error_not_atomic [OF sim_handle_contract h1 h2 h3 h4 h5 hn h6 h7] only
  show ?thesis by blast
qed

text \<open>
  The state this leaves has \<^verbatim>\<open>data->current.uc\<close> at \<open>NULL\<close>. A further backward step from
  it passes the probe again and then reads the flags through the null pointer.
\<close>

lemma progress_again_after_failed_open:
  "progress sim (- 1) (seg_data ''b%d'' 5 NULL 1 0) (sim_state ring_files [] 2) = None"
  by code_simp

end
